theory Spec2Isabelle
  imports Main "HOL-Library.Word" "HOL-Library.Char_ord" "HOL-Library.List_Lexorder"
    "HOL-Library.Option_ord"
begin

unbundle bit_operations_syntax

section \<open>Python values used by the three modules\<close>

text \<open>
  The repository is three Python files: the Finviz backend
  (\<^verbatim>\<open>apps/finviz-market/backend/routes.py\<close>), the Science KB backend
  (\<^verbatim>\<open>apps/arxiv-kb/backend/routes.py\<close>) and the gateway client
  (\<^verbatim>\<open>scripts/commons/openclaw_client.py\<close>). Each route is embedded as a function
  from its arguments and the part of the world it reads (database tables, files, the
  clock, the reply of the LLM endpoint) to its response and the part of the world it
  writes. A raised exception is the \<open>Inl\<close> branch of a sum.

  Strings are byte strings (\<open>char list\<close>); \<open>str.strip\<close>, \<open>str.upper\<close> and
  \<open>str.lower\<close> are modelled on ASCII text, where Python's whitespace characters are
  the nine control characters below and the space.
\<close>

subsection \<open>Strings\<close>

definition isspace :: "char \<Rightarrow> bool" where
  "isspace c = (c \<in> set [CHR 0x09, CHR 0x0A, CHR 0x0B, CHR 0x0C, CHR 0x0D,
                            CHR 0x1C, CHR 0x1D, CHR 0x1E, CHR 0x1F, CHR '' ''])"

definition lstrip :: "string \<Rightarrow> string" where
  "lstrip s = dropWhile isspace s"

definition rstrip :: "string \<Rightarrow> string" where
  "rstrip s = rev (dropWhile isspace (rev s))"

definition strip :: "string \<Rightarrow> string" where
  "strip s = rstrip (lstrip s)"

text \<open>\<^verbatim>\<open>url.rstrip("/")\<close>: every trailing character of the given set is removed.\<close>

definition rstrip_chars :: "string \<Rightarrow> string \<Rightarrow> string" where
  "rstrip_chars cs s = rev (dropWhile (\<lambda>c. c \<in> set cs) (rev s))"

definition ascii_lowercase :: string where
  "ascii_lowercase = ''abcdefghijklmnopqrstuvwxyz''"

definition ascii_uppercase :: string where
  "ascii_uppercase = ''ABCDEFGHIJKLMNOPQRSTUVWXYZ''"

definition upper_char :: "char \<Rightarrow> char" where
  "upper_char c = (case map_of (zip ascii_lowercase ascii_uppercase) c of
                     Some u \<Rightarrow> u | None \<Rightarrow> c)"

definition lower_char :: "char \<Rightarrow> char" where
  "lower_char c = (case map_of (zip ascii_uppercase ascii_lowercase) c of
                     Some l \<Rightarrow> l | None \<Rightarrow> c)"

definition upper :: "string \<Rightarrow> string" where
  "upper s = map upper_char s"

definition lower :: "string \<Rightarrow> string" where
  "lower s = map lower_char s"

text \<open>\<^verbatim>\<open>s.split(sep)\<close> with a one-character separator: never the empty list.\<close>

fun split_on :: "char \<Rightarrow> string \<Rightarrow> string list" where
  "split_on sep [] = [[]]"
| "split_on sep (c # cs) =
     (if c = sep then [] # split_on sep cs
      else (case split_on sep cs of
              [] \<Rightarrow> [[c]]
            | w # ws \<Rightarrow> (c # w) # ws))"

text \<open>\<^verbatim>\<open>str(n)\<close> of an integer, and zero padding as \<^verbatim>\<open>%02d\<close> does it.\<close>

definition digit_char :: "nat \<Rightarrow> char" where
  "digit_char d = ''0123456789'' ! d"

fun str_nat :: "nat \<Rightarrow> string" where
  "str_nat n = (if n < 10 then [digit_char n]
                else str_nat (n div 10) @ [digit_char (n mod 10)])"

declare str_nat.simps [simp del]

definition str_int :: "int \<Rightarrow> string" where
  "str_int i = (if i < 0 then CHR ''-'' # str_nat (nat (- i)) else str_nat (nat i))"

definition zfill :: "nat \<Rightarrow> string \<Rightarrow> string" where
  "zfill w s = replicate (w - length s) (CHR ''0'') @ s"

text \<open>\<^verbatim>\<open>os.path.join(a, b)\<close> on POSIX: an absolute second component replaces the first.\<close>

definition path_join :: "string \<Rightarrow> string \<Rightarrow> string" where
  "path_join a b =
     (if b \<noteq> [] \<and> hd b = CHR ''/'' then b
      else if a = [] \<or> last a = CHR ''/'' then a @ b
      else a @ ''/'' @ b)"

subsection \<open>The clock: \<^verbatim>\<open>datetime.now(timezone.utc)\<close>\<close>

text \<open>
  A UTC \<^verbatim>\<open>datetime\<close> with the fields of the standard library's class. The calendar
  arithmetic follows the standard library's \<^verbatim>\<open>_ymd2ord\<close>, \<^verbatim>\<open>_ord2ymd\<close>,
  \<^verbatim>\<open>_isoweek1monday\<close> and \<^verbatim>\<open>isocalendar\<close> (proleptic Gregorian calendar, day 1 is
  0001-01-01).
\<close>

record datetime =
  year :: int
  month :: int
  day :: int
  hour :: int
  minute :: int
  second :: int
  microsecond :: int

definition is_leap :: "int \<Rightarrow> bool" where
  "is_leap y = (y mod 4 = 0 \<and> (y mod 100 \<noteq> 0 \<or> y mod 400 = 0))"

definition days_before_year :: "int \<Rightarrow> int" where
  "days_before_year y = (let p = y - 1 in p * 365 + p div 4 - p div 100 + p div 400)"

definition DAYS_IN_MONTH :: "int list" where
  "DAYS_IN_MONTH = [-1, 31, 28, 31, 30, 31, 30, 31, 31, 30, 31, 30, 31]"

definition DAYS_BEFORE_MONTH :: "int list" where
  "DAYS_BEFORE_MONTH = [-1, 0, 31, 59, 90, 120, 151, 181, 212, 243, 273, 304, 334]"

definition days_before_month :: "int \<Rightarrow> int \<Rightarrow> int" where
  "days_before_month y m =
     DAYS_BEFORE_MONTH ! nat m + (if m > 2 \<and> is_leap y then 1 else 0)"

definition ymd2ord :: "int \<Rightarrow> int \<Rightarrow> int \<Rightarrow> int" where
  "ymd2ord y m d = days_before_year y + days_before_month y m + d"

definition ord2ymd :: "int \<Rightarrow> int \<times> int \<times> int" where
  "ord2ymd n0 =
     (let n = n0 - 1;
          n400 = n div 146097; n = n mod 146097;
          y = n400 * 400 + 1;
          n100 = n div 36524; n = n mod 36524;
          n4 = n div 1461; n = n mod 1461;
          n1 = n div 365; n = n mod 365;
          y = y + n100 * 100 + n4 * 4 + n1
      in if n1 = 4 \<or> n100 = 4 then (y - 1, 12, 31)
         else
           let leapyear = (n1 = 3 \<and> (n4 \<noteq> 24 \<or> n100 = 3));
               m = (n + 50) div 32;
               preceding = DAYS_BEFORE_MONTH ! nat m + (if m > 2 \<and> leapyear then 1 else 0)
           in if preceding > n
              then let m' = m - 1;
                       preceding' = preceding
                         - (DAYS_IN_MONTH ! nat m' + (if m' = 2 \<and> leapyear then 1 else 0))
                   in (y, m', n - preceding' + 1)
              else (y, m, n - preceding + 1))"

definition isoweek1monday :: "int \<Rightarrow> int" where
  "isoweek1monday y =
     (let firstday = ymd2ord y 1 1;
          firstweekday = (firstday + 6) mod 7;
          week1monday = firstday - firstweekday
      in if firstweekday > 3 then week1monday + 7 else week1monday)"

text \<open>The second component of \<^verbatim>\<open>now.isocalendar()\<close>: the ISO week number.\<close>

definition iso_week :: "datetime \<Rightarrow> int" where
  "iso_week t =
     (let today = ymd2ord (year t) (month t) (day t);
          week = (today - isoweek1monday (year t)) div 7
      in if week < 0 then (today - isoweek1monday (year t - 1)) div 7 + 1
         else if week \<ge> 52 \<and> today \<ge> isoweek1monday (year t + 1) then 1
         else week + 1)"

text \<open>\<^verbatim>\<open>now - timedelta(hours=h)\<close>; the microseconds are untouched by whole hours.\<close>

definition minus_hours :: "datetime \<Rightarrow> int \<Rightarrow> datetime" where
  "minus_hours t h =
     (let secs = ymd2ord (year t) (month t) (day t) * 86400
                 + hour t * 3600 + minute t * 60 + second t - h * 3600;
          days = secs div 86400; rest = secs mod 86400;
          (y, m, d) = ord2ymd days
      in \<lparr>year = y, month = m, day = d,
          hour = rest div 3600, minute = (rest mod 3600) div 60, second = rest mod 60,
          microsecond = microsecond t\<rparr>)"

definition pad :: "nat \<Rightarrow> int \<Rightarrow> string" where
  "pad w i = zfill w (str_int i)"

text \<open>\<^verbatim>\<open>now.strftime('%Y-%m-%d')\<close>; the current year has four digits.\<close>

definition strftime_ymd :: "datetime \<Rightarrow> string" where
  "strftime_ymd t = pad 4 (year t) @ ''-'' @ pad 2 (month t) @ ''-'' @ pad 2 (day t)"

text \<open>\<^verbatim>\<open>now.isoformat()\<close> of an aware UTC time: the fraction is omitted when zero.\<close>

definition isoformat :: "datetime \<Rightarrow> string" where
  "isoformat t =
     pad 4 (year t) @ ''-'' @ pad 2 (month t) @ ''-'' @ pad 2 (day t) @ ''T''
     @ pad 2 (hour t) @ '':'' @ pad 2 (minute t) @ '':'' @ pad 2 (second t)
     @ (if microsecond t \<noteq> 0 then ''.'' @ pad 6 (microsecond t) else [])
     @ ''+00:00''"

subsection \<open>\<^verbatim>\<open>hashlib.md5(raw.encode()).hexdigest()\<close>\<close>

text \<open>MD5 as in RFC 1321, on 32-bit words; the digest is printed in lower-case hex.\<close>

type_synonym u32 = "32 word"

definition md5_K :: "u32 list" where
  "md5_K = [
    0xd76aa478, 0xe8c7b756, 0x242070db, 0xc1bdceee, 0xf57c0faf, 0x4787c62a, 0xa8304613, 0xfd469501,
    0x698098d8, 0x8b44f7af, 0xffff5bb1, 0x895cd7be, 0x6b901122, 0xfd987193, 0xa679438e, 0x49b40821,
    0xf61e2562, 0xc040b340, 0x265e5a51, 0xe9b6c7aa, 0xd62f105d, 0x02441453, 0xd8a1e681, 0xe7d3fbc8,
    0x21e1cde6, 0xc33707d6, 0xf4d50d87, 0x455a14ed, 0xa9e3e905, 0xfcefa3f8, 0x676f02d9, 0x8d2a4c8a,
    0xfffa3942, 0x8771f681, 0x6d9d6122, 0xfde5380c, 0xa4beea44, 0x4bdecfa9, 0xf6bb4b60, 0xbebfbc70,
    0x289b7ec6, 0xeaa127fa, 0xd4ef3085, 0x04881d05, 0xd9d4d039, 0xe6db99e5, 0x1fa27cf8, 0xc4ac5665,
    0xf4292244, 0x432aff97, 0xab9423a7, 0xfc93a039, 0x655b59c3, 0x8f0ccc92, 0xffeff47d, 0x85845dd1,
    0x6fa87e4f, 0xfe2ce6e0, 0xa3014314, 0x4e0811a1, 0xf7537e82, 0xbd3af235, 0x2ad7d2bb, 0xeb86d391]"

definition md5_S :: "nat list" where
  "md5_S = [7, 12, 17, 22, 7, 12, 17, 22, 7, 12, 17, 22, 7, 12, 17, 22,
            5, 9, 14, 20, 5, 9, 14, 20, 5, 9, 14, 20, 5, 9, 14, 20,
            4, 11, 16, 23, 4, 11, 16, 23, 4, 11, 16, 23, 4, 11, 16, 23,
            6, 10, 15, 21, 6, 10, 15, 21, 6, 10, 15, 21, 6, 10, 15, 21]"

definition rotl32 :: "nat \<Rightarrow> u32 \<Rightarrow> u32" where
  "rotl32 n x = push_bit n x OR drop_bit (32 - n) x"

text \<open>Little-endian bytes of a number, and back.\<close>

fun le_bytes :: "nat \<Rightarrow> nat \<Rightarrow> nat list" where
  "le_bytes 0 v = []"
| "le_bytes (Suc k) v = (v mod 256) # le_bytes k (v div 256)"

fun of_le_bytes :: "nat list \<Rightarrow> nat" where
  "of_le_bytes [] = 0"
| "of_le_bytes (b # bs) = b + 256 * of_le_bytes bs"

definition md5_pad :: "nat list \<Rightarrow> nat list" where
  "md5_pad bs =
     bs @ [128] @ replicate ((119 - length bs mod 64) mod 64) 0
        @ le_bytes 8 ((8 * length bs) mod 2 ^ 64)"

fun chunks :: "nat \<Rightarrow> nat \<Rightarrow> 'a list \<Rightarrow> 'a list list" where
  "chunks 0 k xs = []"
| "chunks (Suc n) k xs = take k xs # chunks n k (drop k xs)"

definition md5_round :: "u32 list \<Rightarrow> u32 \<times> u32 \<times> u32 \<times> u32 \<Rightarrow> nat \<Rightarrow> u32 \<times> u32 \<times> u32 \<times> u32" where
  "md5_round M st i =
     (case st of (A, B, C, D) \<Rightarrow>
        let (F, g) =
              (if i < 16 then ((B AND C) OR (NOT B AND D), i)
               else if i < 32 then ((D AND B) OR (NOT D AND C), (5 * i + 1) mod 16)
               else if i < 48 then (B XOR C XOR D, (3 * i + 5) mod 16)
               else (C XOR (B OR NOT D), (7 * i) mod 16));
            F' = F + A + md5_K ! i + M ! g
        in (D, B + rotl32 (md5_S ! i) F', B, C))"

definition md5_block :: "u32 \<times> u32 \<times> u32 \<times> u32 \<Rightarrow> nat list \<Rightarrow> u32 \<times> u32 \<times> u32 \<times> u32" where
  "md5_block h block =
     (let M = map (\<lambda>w. word_of_nat (of_le_bytes w)) (chunks 16 4 block)
      in case (h, foldl (md5_round M) h [0..<64]) of
           ((a0, b0, c0, d0), (A, B, C, D)) \<Rightarrow> (a0 + A, b0 + B, c0 + C, d0 + D))"

definition md5_digest :: "nat list \<Rightarrow> nat list" where
  "md5_digest bs =
     (let p = md5_pad bs
      in case foldl md5_block (0x67452301, 0xefcdab89, 0x98badcfe, 0x10325476)
                (chunks (length p div 64) 64 p) of
           (a, b, c, d) \<Rightarrow> concat (map (\<lambda>w. le_bytes 4 (unat w)) [a, b, c, d]))"

definition hex_char :: "nat \<Rightarrow> char" where
  "hex_char d = ''0123456789abcdef'' ! d"

definition hex_byte :: "nat \<Rightarrow> string" where
  "hex_byte b = [hex_char (b div 16), hex_char (b mod 16)]"

definition md5_hexdigest :: "string \<Rightarrow> string" where
  "md5_hexdigest s = concat (map hex_byte (md5_digest (map of_char s)))"


section \<open>Finviz backend (\<^verbatim>\<open>apps/finviz-market/backend/routes.py\<close>)\<close>

subsection \<open>Exceptions, tables and files\<close>

text \<open>
  \<open>HTTPException\<close> carries the status code and the detail; a request whose query
  parameters violate their \<^verbatim>\<open>Query(ge=, le=)\<close> bounds is rejected by the framework
  before the route runs. \<open>str_exn\<close> is \<^verbatim>\<open>str(e)\<close>, which for an \<open>HTTPException\<close> is
  \<^verbatim>\<open>f"{status_code}: {detail}"\<close>.
\<close>

datatype exn = HTTPException nat string | RequestValidationError string | Exception string

fun str_exn :: "exn \<Rightarrow> string" where
  "str_exn (HTTPException code detail) = str_nat code @ '': '' @ detail"
| "str_exn (RequestValidationError m) = m"
| "str_exn (Exception m) = m"

text \<open>
  A row of the \<^verbatim>\<open>articles\<close> table. The columns whose SQL \<^verbatim>\<open>NULL\<close> the code tests are
  options. The database file may be missing (\<open>None\<close>), which \<^verbatim>\<open>_db_conn\<close> turns into a
  404.
\<close>

record article_row =
  title :: string
  url :: string
  publish_at :: "string option"
  article_path :: "string option"
  ticker :: "string option"
  status :: string

type_synonym finviz_db = "article_row list option"

text \<open>The file system: the text of every regular file, by path.\<close>

type_synonym files = "string \<rightharpoonup> string"

definition db_conn :: "finviz_db \<Rightarrow> exn + article_row list" where
  "db_conn db = (case db of
                   None \<Rightarrow> Inl (HTTPException 404 ''Finviz database not found.'')
                 | Some rows \<Rightarrow> Inr rows)"

text \<open>
  The \<^verbatim>\<open>preferences\<close> table of the settings database, as its (key, value) rows; \<open>None\<close>
  when the file is missing or reading it raises (both give the defaults).
\<close>

type_synonym prefs_db = "(string \<times> string) list option"

record preferences =
  pref_timezone :: string
  pref_language :: string

definition get_preferences :: "prefs_db \<Rightarrow> preferences" where
  "get_preferences pd =
     (case pd of
        None \<Rightarrow> \<lparr>pref_timezone = ''America/Los_Angeles'', pref_language = ''English''\<rparr>
      | Some rows \<Rightarrow>
          let prefs = foldl (\<lambda>m (k, v). m(k \<mapsto> v)) Map.empty rows
          in \<lparr>pref_timezone = (case prefs ''timezone'' of
                                  None \<Rightarrow> ''America/Los_Angeles'' | Some v \<Rightarrow> v),
              pref_language = (case prefs ''language'' of
                                  None \<Rightarrow> ''English'' | Some v \<Rightarrow> v)\<rparr>)"

subsection \<open>Tickers\<close>

text \<open>
  One element of the request body's \<^verbatim>\<open>tickers\<close> list: \<^verbatim>\<open>symbol\<close> and \<^verbatim>\<open>keywords\<close> may
  each be absent. The table has \<^verbatim>\<open>symbol\<close> as primary key, so it is a map from the
  symbol to the keywords and the insertion time; \<^verbatim>\<open>INSERT OR REPLACE\<close> is a map update.
\<close>

record ticker_in =
  t_symbol :: "string option"
  t_keywords :: "string list option"

type_synonym tickers_table = "string \<rightharpoonup> (string list \<times> string)"

record add_response =
  ok :: bool
  added :: "string list"

record remove_response =
  rm_ok :: bool
  removed :: "string list"

definition add_one :: "datetime \<Rightarrow> tickers_table \<times> string list \<Rightarrow> ticker_in
                         \<Rightarrow> tickers_table \<times> string list" where
  "add_one now acc t =
     (let sym = upper (strip (case t_symbol t of None \<Rightarrow> [] | Some s \<Rightarrow> s))
      in if sym = [] \<or> sym = ''MARKET'' then acc
         else let kw = (case t_keywords t of None \<Rightarrow> [lower sym] | Some k \<Rightarrow> k)
              in ((fst acc)(sym \<mapsto> (kw, isoformat now)), snd acc @ [sym]))"

definition add_tickers :: "datetime \<Rightarrow> ticker_in list \<Rightarrow> tickers_table
                             \<Rightarrow> exn + (add_response \<times> tickers_table)" where
  "add_tickers now tickers tb =
     (if tickers = [] then Inl (HTTPException 400 ''No tickers provided'')
      else let (tb', syms) = foldl (add_one now) (tb, []) tickers
           in Inr (\<lparr>ok = True, added = syms\<rparr>, tb'))"

definition remove_tickers :: "string \<Rightarrow> tickers_table \<Rightarrow> remove_response \<times> tickers_table" where
  "remove_tickers symbols tb =
     (let syms = map (\<lambda>s. upper (strip s))
                     (filter (\<lambda>s. strip s \<noteq> []) (split_on (CHR '','') symbols))
      in (\<lparr>rm_ok = True, removed = syms\<rparr>, foldl (\<lambda>m sym. m(sym := None)) tb syms))"

subsection \<open>Articles\<close>

definition period_to_hours :: "string \<Rightarrow> int" where
  "period_to_hours period =
     (case map_of [(''12h'', 12), (''24h'', 24), (''weekly'', 168)] period of
        Some h \<Rightarrow> h | None \<Rightarrow> 24)"

record article =
  a_title :: string
  a_url :: string
  a_date :: "string option"
  a_content :: "string option"

text \<open>
  \<^verbatim>\<open>WHERE publish_at >= ?\<close> compares the stored text with the ISO text of the cutoff, byte
  by byte; a \<^verbatim>\<open>NULL\<close> never passes. \<^verbatim>\<open>ORDER BY publish_at DESC LIMIT ?\<close> follows.
\<close>

definition since :: "string \<Rightarrow> article_row \<Rightarrow> bool" where
  "since cutoff r = (case publish_at r of None \<Rightarrow> False | Some p \<Rightarrow> cutoff \<le> p)"

definition order_by_publish_at_desc :: "article_row list \<Rightarrow> article_row list" where
  "order_by_publish_at_desc rows = rev (sort_key publish_at rows)"

definition read_article :: "files \<Rightarrow> string \<Rightarrow> string option \<Rightarrow> string option" where
  "read_article fs articles_dir path =
     (case path of
        None \<Rightarrow> None
      | Some p \<Rightarrow> if p = [] then None else fs (path_join articles_dir p))"

definition get_articles_for_period ::
  "finviz_db \<Rightarrow> files \<Rightarrow> string \<Rightarrow> datetime \<Rightarrow> int \<Rightarrow> string \<Rightarrow> nat \<Rightarrow> exn + article list" where
  "get_articles_for_period db fs articles_dir now hours topic limit =
     (case db_conn db of
        Inl e \<Rightarrow> Inl e
      | Inr table \<Rightarrow>
          let cutoff = isoformat (minus_hours now hours);
              rows = (if topic = ''Market''
                      then take limit (order_by_publish_at_desc (filter (\<lambda>r.
                             since cutoff r \<and> (ticker r = None \<or> ticker r = Some [])
                             \<and> status r = ''done'') table))
                      else take limit (order_by_publish_at_desc (filter (\<lambda>r.
                             since cutoff r \<and> ticker r = Some topic
                             \<and> status r = ''done'') table)))
          in Inr (map (\<lambda>r. \<lparr>a_title = title r, a_url = url r, a_date = publish_at r,
                             a_content = map_option (take 3000)
                                           (read_article fs articles_dir (article_path r))\<rparr>)
                      rows))"

subsection \<open>The summary cache\<close>

definition bucket :: "datetime \<Rightarrow> string \<Rightarrow> string" where
  "bucket now period =
     (if period = ''weekly'' then str_int (year now) @ ''-W'' @ str_int (iso_week now)
      else if period = ''24h'' then strftime_ymd now @ ''-'' @ str_int (hour now div 6)
      else strftime_ymd now @ ''-'' @ str_int (hour now div 3))"

definition cache_key :: "datetime \<Rightarrow> string \<Rightarrow> string \<Rightarrow> string \<Rightarrow> string" where
  "cache_key now period language topic =
     (let raw = period @ '':'' @ language @ '':'' @ topic @ '':'' @ bucket now period
      in take 12 (md5_hexdigest raw))"

record cache_data =
  c_period :: string
  c_language :: string
  c_topic :: string
  c_summary :: string
  c_article_count :: nat
  c_generated_at :: string

text \<open>
  The cache directory, by file stem: a file holds the JSON that \<^verbatim>\<open>_save_cached_summary\<close>
  wrote, or text that \<^verbatim>\<open>json.loads\<close> rejects.
\<close>

datatype cache_file = Json cache_data | Unparsable

type_synonym summary_cache = "string \<rightharpoonup> cache_file"

definition get_cached_summary ::
  "datetime \<Rightarrow> summary_cache \<Rightarrow> string \<Rightarrow> string \<Rightarrow> string \<Rightarrow> cache_data option" where
  "get_cached_summary now cache period language topic =
     (case cache (cache_key now period language topic) of
        Some (Json d) \<Rightarrow> Some d
      | _ \<Rightarrow> None)"

text \<open>
  Writing the cache file (\<^verbatim>\<open>mkdir\<close>, then \<^verbatim>\<open>write_text\<close> in the locale's encoding) can
  raise: before the file is opened, which leaves the directory as it was, or after
  opening has truncated it (the disk is full, the text cannot be encoded), which leaves
  a file that \<^verbatim>\<open>json.loads\<close> rejects.
\<close>

datatype write_result = Written | Refused exn | Torn exn

text \<open>
  \<^verbatim>\<open>_save_cached_summary\<close> reads the clock twice: in \<^verbatim>\<open>_cache_key\<close> and for
  \<^verbatim>\<open>generated_at\<close>. It returns the saved data or raises, and leaves the cache directory.
\<close>

definition save_cached_summary ::
  "write_result \<Rightarrow> datetime \<Rightarrow> datetime \<Rightarrow> summary_cache \<Rightarrow> string \<Rightarrow> string \<Rightarrow> string
     \<Rightarrow> nat \<Rightarrow> string \<Rightarrow> (exn + cache_data) \<times> summary_cache" where
  "save_cached_summary w now_key now_stamp cache period language summary n topic =
     (let key = cache_key now_key period language topic;
          data = \<lparr>c_period = period, c_language = language, c_topic = topic,
                  c_summary = summary, c_article_count = n,
                  c_generated_at = isoformat now_stamp\<rparr>
      in case w of
           Written \<Rightarrow> (Inr data, cache(key \<mapsto> Json data))
         | Refused e \<Rightarrow> (Inl e, cache)
         | Torn e \<Rightarrow> (Inl e, cache(key \<mapsto> Unparsable)))"

subsection \<open>Generation in a background thread\<close>

text \<open>
  What \<^verbatim>\<open>_do_generate\<close> reads from the world: the database, the article files, the LLM
  endpoint, which for a list of articles either raises or answers with a summary, the
  clock at each of its reads, and what writing the cache file does. One run calls
  \<^verbatim>\<open>_save_cached_summary\<close> once, or twice when the call inside the \<^verbatim>\<open>try\<close> raises: the
  fields ending in 2 belong to the second call.
\<close>

record gen_env =
  e_db :: finviz_db
  e_fs :: files
  e_articles_dir :: string
  e_now_fetch :: datetime
  e_llm :: "article list \<Rightarrow> string \<Rightarrow> string \<Rightarrow> string \<Rightarrow> exn + string"
  e_now_key :: datetime
  e_now_stamp :: datetime
  e_write :: write_result
  e_now_key2 :: datetime
  e_now_stamp2 :: datetime
  e_write2 :: write_result

definition no_articles_message :: "string \<Rightarrow> string" where
  "no_articles_message topic =
     ''No articles found for '' @ topic @ '' in this period. The crawler may not have ingested articles for this ticker yet '' @ [CHR 0xE2, CHR 0x80, CHR 0x94] @ '' try again after the next crawl cycle.''"

definition summary_key :: "string \<Rightarrow> string \<Rightarrow> string \<Rightarrow> string" where
  "summary_key period language topic = period @ '':'' @ language @ '':'' @ topic"

definition fetch_articles :: "gen_env \<Rightarrow> string \<Rightarrow> string \<Rightarrow> exn + article list" where
  "fetch_articles env period topic =
     get_articles_for_period (e_db env) (e_fs env) (e_articles_dir env) (e_now_fetch env)
       (period_to_hours period) topic 200"

text \<open>
  The \<^verbatim>\<open>except\<close> branch of \<^verbatim>\<open>_do_generate\<close>: it saves the text of the exception with
  count 0; when that save raises, the exception leaves the thread.
\<close>

definition do_generate_except ::
  "(string \<Rightarrow> nat \<Rightarrow> (exn + cache_data) \<times> summary_cache) \<Rightarrow> exn
     \<Rightarrow> exn option \<times> summary_cache" where
  "do_generate_except save e =
     (case save (''Error: '' @ str_exn e) 0 of
        (Inl e', c) \<Rightarrow> (Some e', c)
      | (Inr d, c) \<Rightarrow> (None, c))"

text \<open>
  The \<^verbatim>\<open>try\<close>/\<^verbatim>\<open>except\<close> part of \<^verbatim>\<open>_do_generate\<close>: the exception that leaves the thread,
  if any, and what is left in the cache. A save inside the \<^verbatim>\<open>try\<close> that raises is
  caught like any other exception.
\<close>

definition do_generate_try ::
  "gen_env \<Rightarrow> string \<Rightarrow> string \<Rightarrow> string \<Rightarrow> summary_cache \<Rightarrow> exn option \<times> summary_cache" where
  "do_generate_try env period language topic cache =
     (let first = (\<lambda>summary n. save_cached_summary (e_write env) (e_now_key env)
                     (e_now_stamp env) cache period language summary n topic);
          second = (\<lambda>c summary n. save_cached_summary (e_write2 env) (e_now_key2 env)
                     (e_now_stamp2 env) c period language summary n topic);
          in_try = (\<lambda>summary n. case first summary n of
                                    (Inr d, c) \<Rightarrow> (None, c)
                                  | (Inl e, c) \<Rightarrow> do_generate_except (second c) e)
      in case fetch_articles env period topic of
           Inl e \<Rightarrow> do_generate_except first e
         | Inr articles \<Rightarrow>
             if articles = [] then in_try (no_articles_message topic) 0
             else (case e_llm env articles period language topic of
                     Inl e \<Rightarrow> do_generate_except first e
                   | Inr summary \<Rightarrow> in_try summary (length articles)))"

text \<open>The module state: the cache directory and the \<^verbatim>\<open>_generating\<close> dictionary.\<close>

record summary_state =
  cache :: summary_cache
  generating :: "string \<rightharpoonup> bool"

text \<open>The \<^verbatim>\<open>finally\<close> part: \<^verbatim>\<open>_generating.pop(key, None)\<close>.\<close>

definition do_generate_finally :: "string \<Rightarrow> string \<Rightarrow> string \<Rightarrow> summary_state \<Rightarrow> summary_state" where
  "do_generate_finally period language topic s =
     s\<lparr>generating := (generating s)(summary_key period language topic := None)\<rparr>"

text \<open>
  \<^verbatim>\<open>_do_generate\<close>: the exception that leaves the thread, if any, and the state it leaves.
\<close>

definition do_generate ::
  "gen_env \<Rightarrow> string \<Rightarrow> string \<Rightarrow> string \<Rightarrow> summary_state \<Rightarrow> exn option \<times> summary_state" where
  "do_generate env period language topic s =
     (case do_generate_try env period language topic (cache s) of
        (uncaught, c) \<Rightarrow> (uncaught, do_generate_finally period language topic (s\<lparr>cache := c\<rparr>)))"


subsection \<open>\<^verbatim>\<open>GET /summary/{period}\<close>\<close>

datatype summary_response =
  Ready cache_data bool
| Generating string string string

fun response_status :: "summary_response \<Rightarrow> string" where
  "response_status (Ready d g) = ''ready''"
| "response_status (Generating period language topic) = ''generating''"

text \<open>
  The route returns its response, the state it leaves, and the arguments of the
  thread it started, if it started one. With \<^verbatim>\<open>regenerate\<close> the cache file of the
  current bucket is unlinked first; the clock is read once there and once in
  \<^verbatim>\<open>_get_cached_summary\<close>.
\<close>

definition finviz_summary ::
  "prefs_db \<Rightarrow> datetime \<Rightarrow> datetime \<Rightarrow> string \<Rightarrow> int \<Rightarrow> string \<Rightarrow> summary_state
     \<Rightarrow> exn + (summary_response \<times> summary_state \<times> (string \<times> string \<times> string) option)" where
  "finviz_summary pd now_unlink now_lookup period regenerate topic s =
     (if period \<notin> set [''12h'', ''24h'', ''weekly'']
      then Inl (HTTPException 400 ''Period must be 12h, 24h, or weekly'')
      else
        let language = pref_language (get_preferences pd);
            key = summary_key period language topic;
            s1 = (if regenerate \<noteq> 0
                  then s\<lparr>cache := (cache s)(cache_key now_unlink period language topic := None)\<rparr>
                  else s)
        in case get_cached_summary now_lookup (cache s1) period language topic of
             Some cached \<Rightarrow>
               if regenerate = 0
               then Inr (Ready cached (key \<in> dom (generating s1)), s1, None)
               else if key \<in> dom (generating s1)
               then Inr (Generating period language topic, s1, None)
               else Inr (Generating period language topic,
                         s1\<lparr>generating := (generating s1)(key \<mapsto> True)\<rparr>,
                         Some (period, language, topic))
           | None \<Rightarrow>
               if key \<in> dom (generating s1)
               then Inr (Generating period language topic, s1, None)
               else Inr (Generating period language topic,
                         s1\<lparr>generating := (generating s1)(key \<mapsto> True)\<rparr>,
                         Some (period, language, topic)))"

subsection \<open>Requests and background threads, interleaved\<close>

text \<open>
  A running thread is the arguments \<^verbatim>\<open>_do_generate\<close> was started with and whether its
  \<^verbatim>\<open>try\<close> part is over. One step of the service is a request handled by the route
  (the route has no \<^verbatim>\<open>await\<close>, so it runs without interruption on the event loop), the
  \<^verbatim>\<open>try\<close> part of a thread, or the \<^verbatim>\<open>finally\<close> part of a thread, after which the thread
  is gone.
\<close>

record thread =
  th_period :: string
  th_language :: string
  th_topic :: string
  th_saved :: bool

definition thread_key :: "thread \<Rightarrow> string" where
  "thread_key t = summary_key (th_period t) (th_language t) (th_topic t)"

definition start :: "(string \<times> string \<times> string) option \<Rightarrow> thread list" where
  "start args = (case args of
                   None \<Rightarrow> []
                 | Some (period, language, topic) \<Rightarrow>
                     [\<lparr>th_period = period, th_language = language, th_topic = topic,
                       th_saved = False\<rparr>])"

record service =
  state :: summary_state
  running :: "thread list"

inductive step :: "service \<Rightarrow> service \<Rightarrow> bool" where
  request:
    "finviz_summary pd now_unlink now_lookup period regenerate topic (state sv)
       = Inr (resp, s', started)
     \<Longrightarrow> step sv \<lparr>state = s', running = running sv @ start started\<rparr>"
| work:
    "i < length (running sv) \<Longrightarrow> running sv ! i = t \<Longrightarrow> \<not> th_saved t
     \<Longrightarrow> step sv
          \<lparr>state = (state sv)\<lparr>cache := snd (do_generate_try env (th_period t) (th_language t)
                                               (th_topic t) (cache (state sv)))\<rparr>,
           running = (running sv)[i := t\<lparr>th_saved := True\<rparr>]\<rparr>"
| finish:
    "i < length (running sv) \<Longrightarrow> running sv ! i = t \<Longrightarrow> th_saved t
     \<Longrightarrow> step sv
          \<lparr>state = do_generate_finally (th_period t) (th_language t) (th_topic t) (state sv),
           running = take i (running sv) @ drop (Suc i) (running sv)\<rparr>"

text \<open>The service starts with an empty \<^verbatim>\<open>_generating\<close> and no thread; any cache files.\<close>

inductive reachable :: "service \<Rightarrow> bool" where
  init: "reachable \<lparr>state = \<lparr>cache = c, generating = Map.empty\<rparr>, running = []\<rparr>"
| step: "reachable sv \<Longrightarrow> step sv sv' \<Longrightarrow> reachable sv'"

subsection \<open>\<^verbatim>\<open>GET /headlines\<close> and \<^verbatim>\<open>GET /article\<close>\<close>

record headline =
  h_title :: string
  h_url :: string
  h_date :: "string option"
  has_content :: bool

record headlines_response =
  count :: nat
  headlines :: "headline list"

definition finviz_headlines :: "finviz_db \<Rightarrow> datetime \<Rightarrow> int \<Rightarrow> int \<Rightarrow> exn + headlines_response" where
  "finviz_headlines db now hours limit =
     (if \<not> (1 \<le> hours \<and> hours \<le> 720) then Inl (RequestValidationError ''hours'')
      else if \<not> (1 \<le> limit \<and> limit \<le> 500) then Inl (RequestValidationError ''limit'')
      else case db_conn db of
             Inl e \<Rightarrow> Inl e
           | Inr table \<Rightarrow>
               let cutoff = isoformat (minus_hours now hours);
                   rows = take (nat limit)
                            (order_by_publish_at_desc (filter (since cutoff) table))
               in Inr \<lparr>count = length rows,
                       headlines = map (\<lambda>r. \<lparr>h_title = title r, h_url = url r,
                                              h_date = publish_at r,
                                              has_content = (article_path r \<noteq> None)\<rparr>) rows\<rparr>)"

definition finviz_article :: "finviz_db \<Rightarrow> files \<Rightarrow> string \<Rightarrow> string \<Rightarrow> exn + article" where
  "finviz_article db fs articles_dir u =
     (case db_conn db of
        Inl e \<Rightarrow> Inl e
      | Inr table \<Rightarrow>
          (case find (\<lambda>r. url r = u) table of
             None \<Rightarrow> Inl (HTTPException 404 ''Article not found'')
           | Some row \<Rightarrow>
               Inr \<lparr>a_title = title row, a_url = url row, a_date = publish_at row,
                    a_content = read_article fs articles_dir (article_path row)\<rparr>))"

section \<open>Science KB backend (\<^verbatim>\<open>apps/arxiv-kb/backend/routes.py\<close>)\<close>

text \<open>
  The \<^verbatim>\<open>papers\<close> and \<^verbatim>\<open>translations\<close> tables; \<open>None\<close> when the database file is missing.
\<close>

record paper_row =
  p_id :: int
  p_arxiv_id :: string
  p_title :: string
  p_abstract :: "string option"
  p_published :: string

record translation_row =
  tr_paper_id :: int
  tr_language :: string
  tr_abstract :: "string option"

record arxiv_tables =
  t_papers :: "paper_row list"
  t_translations :: "translation_row list"

type_synonym arxiv_db = "arxiv_tables option"

definition arxiv_db_conn :: "arxiv_db \<Rightarrow> exn + arxiv_tables" where
  "arxiv_db_conn db =
     (case db of
        None \<Rightarrow> Inl (HTTPException 404 ''ArXivKB database not found. Run: skb ingest'')
      | Some t \<Rightarrow> Inr t)"

text \<open>
  \<^verbatim>\<open>SELECT value FROM preferences WHERE key = 'language'\<close>, first row; the empty string
  when the settings file is missing, unreadable, or has no such row.
\<close>

definition get_translate_language :: "prefs_db \<Rightarrow> string" where
  "get_translate_language pd =
     (case pd of
        None \<Rightarrow> []
      | Some rows \<Rightarrow>
          (case find (\<lambda>(k, v). k = ''language'') rows of
             None \<Rightarrow> []
           | Some (k, v) \<Rightarrow> if v \<noteq> [] then strip v else []))"

text \<open>
  The LLM endpoint: for a text and a target language, the content of an answer with a
  good status, or nothing (the request raised, or the status was bad).
\<close>

type_synonym llm_endpoint = "string \<Rightarrow> string \<Rightarrow> string option"

definition translate :: "llm_endpoint \<Rightarrow> string \<Rightarrow> string \<Rightarrow> string option" where
  "translate llm text target_lang = map_option strip (llm text target_lang)"

definition pdf_path :: "string \<Rightarrow> string \<Rightarrow> string" where
  "pdf_path data_dir arxiv_id = path_join (path_join data_dir ''pdfs'') (arxiv_id @ ''.pdf'')"

record paper_response =
  r_arxiv_id :: string
  r_title :: string
  r_abstract :: "string option"
  r_abstract_translated :: "string option"
  r_translate_language :: "string option"
  r_published :: string
  r_has_pdf :: bool

definition cached_translation :: "arxiv_tables \<Rightarrow> int \<Rightarrow> string \<Rightarrow> translation_row option" where
  "cached_translation t pid lang =
     find (\<lambda>r. tr_paper_id r = pid \<and> tr_language r = lang) (t_translations t)"

definition truthy :: "string option \<Rightarrow> bool" where
  "truthy v = (case v of None \<Rightarrow> False | Some s \<Rightarrow> s \<noteq> [])"

definition science_paper ::
  "arxiv_db \<Rightarrow> files \<Rightarrow> string \<Rightarrow> prefs_db \<Rightarrow> string \<Rightarrow> exn + paper_response" where
  "science_paper db fs data_dir pd arxiv_id =
     (case arxiv_db_conn db of
        Inl e \<Rightarrow> Inl e
      | Inr t \<Rightarrow>
          (case find (\<lambda>r. p_arxiv_id r = arxiv_id) (t_papers t) of
             None \<Rightarrow> Inl (HTTPException 404 ''Paper not found'')
           | Some row \<Rightarrow>
               let has_pdf = (fs (pdf_path data_dir (p_arxiv_id row)) \<noteq> None);
                   target_lang = get_translate_language pd;
                   abstract_translated =
                     (if target_lang \<noteq> [] \<and> truthy (p_abstract row)
                      then (case cached_translation t (p_id row) target_lang of
                              None \<Rightarrow> None
                            | Some tr \<Rightarrow> tr_abstract tr)
                      else None)
               in Inr \<lparr>r_arxiv_id = p_arxiv_id row, r_title = p_title row,
                       r_abstract = p_abstract row,
                       r_abstract_translated = abstract_translated,
                       r_translate_language =
                         (if target_lang \<noteq> [] then Some target_lang else None),
                       r_published = p_published row, r_has_pdf = has_pdf\<rparr>))"

text \<open>
  The translate route returns its response, the tables it leaves and the requests it
  sent to the LLM endpoint. The \<^verbatim>\<open>INSERT\<close> is inside \<^verbatim>\<open>try\<close>/\<^verbatim>\<open>except: pass\<close>:
  \<open>insert_ok\<close> tells whether the database accepts it.
\<close>

record translate_response =
  out_translated :: "string option"
  out_language :: "string option"

definition science_paper_translate ::
  "arxiv_db \<Rightarrow> prefs_db \<Rightarrow> llm_endpoint \<Rightarrow> bool \<Rightarrow> string
     \<Rightarrow> exn + (translate_response \<times> arxiv_tables \<times> (string \<times> string) list)" where
  "science_paper_translate db pd llm insert_ok arxiv_id =
     (case arxiv_db_conn db of
        Inl e \<Rightarrow> Inl e
      | Inr t \<Rightarrow>
          (case find (\<lambda>r. p_arxiv_id r = arxiv_id) (t_papers t) of
             None \<Rightarrow> Inr (\<lparr>out_translated = None, out_language = None\<rparr>, t, [])
           | Some row \<Rightarrow>
               (case p_abstract row of
                  None \<Rightarrow> Inr (\<lparr>out_translated = None, out_language = None\<rparr>, t, [])
                | Some abstract \<Rightarrow>
                    if abstract = [] then Inr (\<lparr>out_translated = None, out_language = None\<rparr>, t, [])
                    else
                      let target_lang = get_translate_language pd
                      in if target_lang = []
                         then Inr (\<lparr>out_translated = None, out_language = None\<rparr>, t, [])
                         else
                           (case cached_translation t (p_id row) target_lang of
                              Some tr \<Rightarrow>
                                Inr (\<lparr>out_translated = tr_abstract tr,
                                      out_language = Some target_lang\<rparr>, t, [])
                            | None \<Rightarrow>
                                let result = translate llm abstract target_lang;
                                    t' = (if truthy result \<and> insert_ok
                                          then t\<lparr>t_translations := t_translations t @
                                                 [\<lparr>tr_paper_id = p_id row,
                                                   tr_language = target_lang,
                                                   tr_abstract = result\<rparr>]\<rparr>
                                          else t)
                                in Inr (\<lparr>out_translated = result, out_language = Some target_lang\<rparr>,
                                        t', [(abstract, target_lang)])))))"

record file_response =
  fr_path :: string
  fr_media_type :: string
  fr_filename :: string
  fr_content_disposition :: string

definition science_pdf :: "files \<Rightarrow> string \<Rightarrow> string \<Rightarrow> exn + file_response" where
  "science_pdf fs data_dir arxiv_id =
     (let pdf_file = pdf_path data_dir arxiv_id
      in if fs pdf_file = None then Inl (HTTPException 404 ''PDF not found'')
         else Inr \<lparr>fr_path = pdf_file, fr_media_type = ''application/pdf'',
                   fr_filename = arxiv_id @ ''.pdf'', fr_content_disposition = ''inline''\<rparr>)"

section \<open>Gateway client (\<^verbatim>\<open>scripts/commons/openclaw_client.py\<close>)\<close>

text \<open>
  What \<^verbatim>\<open>json.loads\<close> returns (numbers with a fraction are left out). The config file at
  \<^verbatim>\<open>~/.openclaw/openclaw.json\<close> is missing, or raises when read or parsed, or parses.
\<close>

datatype json =
  JNull | JBool bool | JInt int | JStr string | JList "json list" | JDict "(string \<times> json) list"

datatype config_file = NoFile | Invalid | Parsed json

datatype py_error = AttributeError

text \<open>\<^verbatim>\<open>d.get(key, default)\<close>: an \<open>AttributeError\<close> on anything but a dictionary.\<close>

definition dict_get :: "json \<Rightarrow> string \<Rightarrow> json \<Rightarrow> py_error + json" where
  "dict_get d key dflt =
     (case d of
        JDict kvs \<Rightarrow> (case map_of kvs key of None \<Rightarrow> Inr dflt | Some v \<Rightarrow> Inr v)
      | _ \<Rightarrow> Inl AttributeError)"

text \<open>
  \<^verbatim>\<open>f"{v}"\<close>: a string as it is, an integer in decimal, \<^verbatim>\<open>None\<close>, \<^verbatim>\<open>True\<close>, \<^verbatim>\<open>False\<close>;
  lists and dictionaries print as \<^verbatim>\<open>repr\<close> shows them, which is a parameter here.
\<close>

definition format_value :: "(json \<Rightarrow> string) \<Rightarrow> json \<Rightarrow> string" where
  "format_value repr v =
     (case v of
        JStr s \<Rightarrow> s
      | JInt i \<Rightarrow> str_int i
      | JNull \<Rightarrow> ''None''
      | JBool b \<Rightarrow> (if b then ''True'' else ''False'')
      | _ \<Rightarrow> repr v)"

definition gateway_from_config :: "(json \<Rightarrow> string) \<Rightarrow> json \<Rightarrow> py_error + string" where
  "gateway_from_config repr cfg =
     (case dict_get cfg ''gateway'' (JDict []) of
        Inl e \<Rightarrow> Inl e
      | Inr gw \<Rightarrow>
          (case dict_get gw ''port'' (JInt 18789) of
             Inl e \<Rightarrow> Inl e
           | Inr port \<Rightarrow>
               (case dict_get gw ''host'' (JStr ''127.0.0.1'') of
                  Inl e \<Rightarrow> Inl e
                | Inr host \<Rightarrow>
                    Inr (''http://'' @ format_value repr host @ '':''
                         @ format_value repr port))))"

definition get_gateway_url :: "(json \<Rightarrow> string) \<Rightarrow> string option \<Rightarrow> config_file \<Rightarrow> string" where
  "get_gateway_url repr env_url config =
     (if truthy env_url then rstrip_chars ''/'' (the env_url)
      else case config of
             Parsed cfg \<Rightarrow>
               (case gateway_from_config repr cfg of
                  Inr u \<Rightarrow> u
                | Inl e \<Rightarrow> ''http://localhost:18789'')
           | _ \<Rightarrow> ''http://localhost:18789'')"

section \<open>The claims' vocabulary\<close>

text \<open>
  Two times lie in the same bucket of a period, in the words of the specification: for
  \<^verbatim>\<open>weekly\<close> the year and the ISO week number agree, for \<^verbatim>\<open>24h\<close> the calendar date and
  the hour divided by 6, for every other period the calendar date and the hour divided
  by 3.
\<close>

definition same_bucket :: "string \<Rightarrow> datetime \<Rightarrow> datetime \<Rightarrow> bool" where
  "same_bucket period t1 t2 =
     (if period = ''weekly'' then year t1 = year t2 \<and> iso_week t1 = iso_week t2
      else if period = ''24h''
      then (year t1, month t1, day t1) = (year t2, month t2, day t2)
           \<and> hour t1 div 6 = hour t2 div 6
      else (year t1, month t1, day t1) = (year t2, month t2, day t2)
           \<and> hour t1 div 3 = hour t2 div 3)"

text \<open>The exception of a write that raises.\<close>

fun raised :: "write_result \<Rightarrow> exn option" where
  "raised Written = None"
| "raised (Refused e) = Some e"
| "raised (Torn e) = Some e"

text \<open>
  A run of \<^verbatim>\<open>_do_generate\<close> reaches a save inside the \<^verbatim>\<open>try\<close> when fetching does not raise
  and either finds no article or the LLM answers.
\<close>

definition saves_in_try :: "gen_env \<Rightarrow> string \<Rightarrow> string \<Rightarrow> string \<Rightarrow> bool" where
  "saves_in_try env period language topic =
     (case fetch_articles env period topic of
        Inl e \<Rightarrow> False
      | Inr articles \<Rightarrow>
          if articles = [] then True
          else (case e_llm env articles period language topic of
                  Inl e \<Rightarrow> False
                | Inr summary \<Rightarrow> True))"

text \<open>A symbol is normalised when stripping and upper-casing leave it as it is.\<close>

definition normalised :: "string \<Rightarrow> bool" where
  "normalised s = (strip s = s \<and> upper s = s)"

text \<open>The symbol \<^verbatim>\<open>add_tickers\<close> derives from a list element, and the ones it keeps.\<close>

definition symbol_of :: "ticker_in \<Rightarrow> string" where
  "symbol_of t = upper (strip (case t_symbol t of None \<Rightarrow> [] | Some s \<Rightarrow> s))"

definition kept_symbols :: "ticker_in list \<Rightarrow> string list" where
  "kept_symbols ts = filter (\<lambda>sym. sym \<noteq> [] \<and> sym \<noteq> ''MARKET'') (map symbol_of ts)"

text \<open>The number of running threads that generate for a key.\<close>

definition in_progress :: "service \<Rightarrow> string \<Rightarrow> nat" where
  "in_progress sv key = length (filter (\<lambda>t. thread_key t = key) (running sv))"

text \<open>
  The guard of \<^verbatim>\<open>_generating\<close>: no two running threads have the same key, and the key
  of every running thread is marked.
\<close>

definition guarded :: "service \<Rightarrow> bool" where
  "guarded sv = (distinct (map thread_key (running sv))
                 \<and> thread_key ` set (running sv) \<subseteq> dom (generating (state sv)))"

text \<open>
  The gateway section of a parsed config that \<^verbatim>\<open>get_gateway_url\<close> can read: the document
  is an object, and its \<^verbatim>\<open>gateway\<close> member is absent (an empty section) or an object.
\<close>

definition gateway_section :: "json \<Rightarrow> (string \<times> json) list option" where
  "gateway_section cfg =
     (case cfg of
        JDict kvs \<Rightarrow>
          (case map_of kvs ''gateway'' of
             None \<Rightarrow> Some []
           | Some (JDict gw) \<Rightarrow> Some gw
           | Some _ \<Rightarrow> None)
      | _ \<Rightarrow> None)"

section \<open>Scenarios\<close>

text \<open>Concrete worlds on which the theorems below are instantiated.\<close>

definition ex_now :: datetime where
  "ex_now = \<lparr>year = 2026, month = 11, day = 4, hour = 12, minute = 30, second = 0,
             microsecond = 0\<rparr>"

definition ex_later :: datetime where
  "ex_later = \<lparr>year = 2026, month = 11, day = 4, hour = 17, minute = 59, second = 59,
               microsecond = 999999\<rparr>"

definition ex_row1 :: article_row where
  "ex_row1 = \<lparr>title = ''Fed holds rates'', url = ''https://finviz.com/news/1'',
               publish_at = Some ''2026-11-04T09:00:00+00:00'',
               article_path = Some ''1.txt'', ticker = None, status = ''done''\<rparr>"

definition ex_row2 :: article_row where
  "ex_row2 = \<lparr>title = ''Chip maker beats estimates'', url = ''https://finviz.com/news/2'',
               publish_at = Some ''2026-11-04T11:15:00+00:00'',
               article_path = None, ticker = Some ''NVDA'', status = ''done''\<rparr>"

definition ex_row3 :: article_row where
  "ex_row3 = \<lparr>title = ''Summer rally fades'', url = ''https://finviz.com/news/3'',
               publish_at = Some ''2026-09-01T08:00:00+00:00'',
               article_path = Some ''3.txt'', ticker = None, status = ''done''\<rparr>"

definition ex_articles :: "article_row list" where
  "ex_articles = [ex_row1, ex_row2, ex_row3]"

definition ex_files :: files where
  "ex_files = [''/data/articles/1.txt'' \<mapsto> ''Rates stay unchanged.'',
               ''/data/arxivkb/pdfs/2401.00001.pdf'' \<mapsto> ''%PDF-1.7'']"

definition ex_llm_summary :: "article list \<Rightarrow> string \<Rightarrow> string \<Rightarrow> string \<Rightarrow> exn + string" where
  "ex_llm_summary articles period language topic = Inr ''Markets were calm.''"

definition ex_env :: gen_env where
  "ex_env = \<lparr>e_db = Some ex_articles, e_fs = ex_files, e_articles_dir = ''/data/articles'',
             e_now_fetch = ex_now, e_llm = ex_llm_summary,
             e_now_key = ex_now, e_now_stamp = ex_now, e_write = Written,
             e_now_key2 = ex_now, e_now_stamp2 = ex_now, e_write2 = Written\<rparr>"

text \<open>The same world with a full disk: every write of the cache file is refused.\<close>

definition ex_disk_full :: exn where
  "ex_disk_full = Exception ''[Errno 28] No space left on device''"

definition ex_env_torn :: gen_env where
  "ex_env_torn = ex_env\<lparr>e_write := Torn ex_disk_full, e_now_key2 := ex_later\<rparr>"

definition ex_env_disk_full :: gen_env where
  "ex_env_disk_full = ex_env\<lparr>e_write := Refused ex_disk_full, e_write2 := Refused ex_disk_full\<rparr>"

definition ex_state :: summary_state where
  "ex_state = \<lparr>cache = Map.empty, generating = [''24h:English:Market'' \<mapsto> True]\<rparr>"

definition ex_tables :: arxiv_tables where
  "ex_tables =
     \<lparr>t_papers =
        [\<lparr>p_id = 1, p_arxiv_id = ''2401.00001'', p_title = ''Attention revisited'',
          p_abstract = Some ''We revisit attention.'', p_published = ''2024-01-01''\<rparr>,
         \<lparr>p_id = 2, p_arxiv_id = ''2401.00002'', p_title = ''Untitled'',
          p_abstract = Some [], p_published = ''2024-01-02''\<rparr>],
      t_translations =
        [\<lparr>tr_paper_id = 1, tr_language = ''Spanish'',
          tr_abstract = Some ''Revisamos la atencion.''\<rparr>]\<rparr>"

definition ex_prefs_spanish :: prefs_db where
  "ex_prefs_spanish = Some [(''timezone'', ''UTC''), (''language'', '' Spanish '')]"

definition ex_prefs_german :: prefs_db where
  "ex_prefs_german = Some [(''timezone'', ''UTC''), (''language'', ''German'')]"

definition ex_llm_translate :: llm_endpoint where
  "ex_llm_translate text target_lang = Some '' Wir betrachten Attention erneut. ''"

definition ex_thread :: thread where
  "ex_thread = \<lparr>th_period = ''24h'', th_language = ''English'', th_topic = ''Market'',
                 th_saved = False\<rparr>"

definition ex_data :: cache_data where
  "ex_data = \<lparr>c_period = ''24h'', c_language = ''English'', c_topic = ''Market'',
               c_summary = ''Markets were calm.'', c_article_count = 1,
               c_generated_at = ''2026-11-04T12:30:00+00:00''\<rparr>"

text \<open>
  A run of the service: it starts empty; a first request starts a thread; the thread
  has saved its summary and has not yet reached its \<^verbatim>\<open>finally\<close>.
\<close>

definition ex_service0 :: service where
  "ex_service0 = \<lparr>state = \<lparr>cache = Map.empty, generating = Map.empty\<rparr>, running = []\<rparr>"

definition ex_service1 :: service where
  "ex_service1 = \<lparr>state = ex_state, running = [ex_thread]\<rparr>"

definition ex_service2 :: service where
  "ex_service2 =
     \<lparr>state = \<lparr>cache = [cache_key ex_now ''24h'' ''English'' ''Market'' \<mapsto> Json ex_data],
                generating = [''24h:English:Market'' \<mapsto> True]\<rparr>,
      running = [ex_thread\<lparr>th_saved := True\<rparr>]\<rparr>"

definition ex_tickers :: "ticker_in list" where
  "ex_tickers = [\<lparr>t_symbol = Some '' nvda '', t_keywords = None\<rparr>,
                 \<lparr>t_symbol = Some ''market'', t_keywords = None\<rparr>,
                 \<lparr>t_symbol = None, t_keywords = Some [''nothing'']\<rparr>,
                 \<lparr>t_symbol = Some ''TSLA'', t_keywords = Some [''tesla'']\<rparr>]"

definition ex_ticker_table :: tickers_table where
  "ex_ticker_table = [''NVDA'' \<mapsto> ([''nvda''], ''2026-11-01T00:00:00+00:00'')]"

definition ex_repr :: "json \<Rightarrow> string" where
  "ex_repr v = ''{}''"

definition ex_config :: json where
  "ex_config = JDict [(''gateway'', JDict [(''port'', JInt 9000)])]"

definition ex_config_null :: json where
  "ex_config_null = JDict [(''gateway'', JNull)]"

section \<open>Auxiliary facts\<close>


lemma selected_rows:
  "r \<in> set (take n (order_by_publish_at_desc (filter P table))) \<Longrightarrow> P r \<and> r \<in> set table"
  by (auto simp: order_by_publish_at_desc_def dest!: in_set_takeD)

lemma sinceD: "since cutoff r \<Longrightarrow> \<exists>p. publish_at r = Some p \<and> cutoff \<le> p"
  by (auto simp: since_def split: option.splits)

lemma sorted_desc_take:
  "sorted (rev (map publish_at (take n (order_by_publish_at_desc rows))))"
proof -
  have "sorted (rev (map publish_at (order_by_publish_at_desc rows)))"
    by (simp add: order_by_publish_at_desc_def rev_map [symmetric])
  then have "sorted (rev (take n (map publish_at (order_by_publish_at_desc rows))))"
    using sorted_wrt_take [of "(\<ge>)" "map publish_at (order_by_publish_at_desc rows)" n]
    by (simp add: sorted_wrt_rev)
  then show ?thesis by (simp add: take_map)
qed

lemma find_none: "(\<forall>r \<in> set xs. \<not> P r) \<Longrightarrow> find P xs = None"
  by (simp add: find_None_iff)

lemma pdf_path_shape:
  assumes "data_dir \<noteq> []" "last data_dir \<noteq> CHR ''/''" "CHR ''/'' \<notin> set arxiv_id"
  shows "pdf_path data_dir arxiv_id = data_dir @ ''/pdfs/'' @ arxiv_id @ ''.pdf''"
proof -
  have 1: "path_join data_dir ''pdfs'' = data_dir @ ''/pdfs''"
    using assms by (simp add: path_join_def)
  have 2: "hd (arxiv_id @ ''.pdf'') \<noteq> CHR ''/''"
    using assms(3) by (cases arxiv_id) auto
  show ?thesis
    using 2 assms(1,2) by (simp add: pdf_path_def 1) (simp add: path_join_def)
qed

lemma length_le_bytes: "length (le_bytes k v) = k"
  by (induction k arbitrary: v) auto

lemma length_concat_hex: "length (concat (map hex_byte bs)) = 2 * length bs"
  by (induction bs) (auto simp: hex_byte_def)

lemma length_md5_digest: "length (md5_digest bs) = 16"
  by (simp add: md5_digest_def Let_def length_le_bytes split: prod.splits)

lemma length_md5_hexdigest: "length (md5_hexdigest s) = 32"
  by (simp add: md5_hexdigest_def length_concat_hex length_md5_digest)

lemma same_bucket_bucket: "same_bucket period t1 t2 \<Longrightarrow> bucket t1 period = bucket t2 period"
  by (auto simp: same_bucket_def bucket_def strftime_ymd_def split: if_splits)


lemma ex_cutoff_day: "isoformat (minus_hours ex_now 24) = ''2026-11-03T12:30:00+00:00''"
  by code_simp


lemma ex_headlines:
  "finviz_headlines (Some ex_articles) ex_now 24 1 =
     Inr \<lparr>count = 1,
          headlines = [\<lparr>h_title = ''Chip maker beats estimates'',
                        h_url = ''https://finviz.com/news/2'',
                        h_date = Some ''2026-11-04T11:15:00+00:00'', has_content = False\<rparr>]\<rparr>"
  by code_simp

lemma isspace_upper_char: "isspace (upper_char c) = isspace c"
  by (auto simp: upper_char_def isspace_def ascii_lowercase_def ascii_uppercase_def)

lemma upper_char_idem: "upper_char (upper_char c) = upper_char c"
  by (auto simp: upper_char_def ascii_lowercase_def ascii_uppercase_def)

lemma upper_idem: "upper (upper s) = upper s"
  by (simp add: upper_def upper_char_idem)

lemma dropWhile_isspace_upper:
  "dropWhile isspace (map upper_char s) = map upper_char (dropWhile isspace s)"
  by (induction s) (auto simp: isspace_upper_char)

lemma strip_upper: "strip (upper s) = upper (strip s)"
  by (simp add: strip_def lstrip_def rstrip_def upper_def dropWhile_isspace_upper rev_map)

lemma dropWhile_rev_dropWhile:
  "dropWhile P (rev (dropWhile P (rev (dropWhile P xs))))
     = rev (dropWhile P (rev (dropWhile P xs)))"
proof -
  define t where "t = dropWhile P xs"
  define u where "u = rev (dropWhile P (rev t))"
  have "dropWhile P u = u"
  proof (cases u)
    case Nil
    then show ?thesis by simp
  next
    case (Cons y ys)
    have "t = u @ rev (takeWhile P (rev t))"
      unfolding u_def by (metis rev_append rev_rev_ident takeWhile_dropWhile_id)
    then obtain zs where t: "t = (y # ys) @ zs"
      using Cons by auto
    then have "t \<noteq> []"
      by auto
    then have "\<not> P (hd t)"
      unfolding t_def by (rule hd_dropWhile)
    with t have "\<not> P y"
      by simp
    then show ?thesis
      using Cons by simp
  qed
  then show ?thesis
    by (simp add: u_def t_def)
qed

lemma strip_idem: "strip (strip s) = strip s"
  by (simp add: strip_def lstrip_def rstrip_def dropWhile_rev_dropWhile dropWhile_idem)

lemma normalised_symbol: "normalised (upper (strip s))"
  by (simp add: normalised_def upper_idem strip_upper strip_idem)

lemma add_one_kept:
  "add_one now acc t =
     (if symbol_of t = [] \<or> symbol_of t = ''MARKET'' then acc
      else ((fst acc)(symbol_of t \<mapsto>
               ((case t_keywords t of None \<Rightarrow> [lower (symbol_of t)] | Some k \<Rightarrow> k),
                isoformat now)),
            snd acc @ [symbol_of t]))"
  unfolding add_one_def symbol_of_def Let_def by (rule refl)

lemma foldl_add_one:
  "foldl (add_one now) acc ts = (tb', syms) \<Longrightarrow>
     syms = snd acc @ kept_symbols ts
     \<and> dom tb' = dom (fst acc) \<union> set (kept_symbols ts)
     \<and> (\<forall>k. k \<notin> set (kept_symbols ts) \<longrightarrow> tb' k = fst acc k)"
proof (induction ts arbitrary: acc)
  case Nil
  then show ?case by (simp add: kept_symbols_def)
next
  case (Cons t ts)
  from Cons.prems have "foldl (add_one now) (add_one now acc t) ts = (tb', syms)"
    by simp
  from Cons.IH [OF this] show ?case
    by (auto simp: add_one_kept kept_symbols_def split: if_splits)
qed

lemma foldl_delete:
  "dom (foldl (\<lambda>m sym. m(sym := None)) tb syms) = dom tb - set syms
   \<and> (\<forall>k. k \<notin> set syms \<longrightarrow> foldl (\<lambda>m sym. m(sym := None)) tb syms k = tb k)"
  by (induction syms arbitrary: tb) auto

lemma finviz_summary_effect:
  assumes "finviz_summary pd now_unlink now_lookup period regenerate topic s
             = Inr (resp, s', started)"
  shows "(started = None \<and> generating s' = generating s)
         \<or> (started = Some (period, pref_language (get_preferences pd), topic)
            \<and> summary_key period (pref_language (get_preferences pd)) topic
                  \<notin> dom (generating s)
            \<and> generating s'
                = (generating s)(summary_key period (pref_language (get_preferences pd)) topic
                                   \<mapsto> True)
            \<and> response_status resp = ''generating'')"
  using assms
  by (auto simp: finviz_summary_def Let_def split: if_splits option.splits)

lemma thread_key_start:
  "map thread_key (start (Some (period, language, topic))) = [summary_key period language topic]"
  by (simp add: start_def thread_key_def)

lemma thread_key_started:
  "t \<in> set (start (Some (period, language, topic)))
     \<Longrightarrow> thread_key t = summary_key period language topic"
  by (simp add: start_def thread_key_def)

lemma step_guarded:
  assumes "step sv sv'" "guarded sv"
  shows "guarded sv'"
  using assms
proof (cases rule: step.cases)
  case (request pd now_unlink now_lookup period regenerate topic resp s' started)
  from finviz_summary_effect [OF request(2)] show ?thesis
  proof
    assume "started = None \<and> generating s' = generating (state sv)"
    with assms(2) request(1) show ?thesis
      by (simp add: guarded_def start_def)
  next
    assume a: "started = Some (period, pref_language (get_preferences pd), topic)
            \<and> summary_key period (pref_language (get_preferences pd)) topic
                  \<notin> dom (generating (state sv))
            \<and> generating s'
                = (generating (state sv))(summary_key period (pref_language (get_preferences pd)) topic
                                   \<mapsto> True)
            \<and> response_status resp = ''generating''"
    with assms(2) request(1) show ?thesis
      by (auto simp: guarded_def thread_key_start dest: thread_key_started)
  qed
next
  case (work i t env)
  have "map thread_key ((running sv)[i := t\<lparr>th_saved := True\<rparr>]) = map thread_key (running sv)"
    using work(2,3) by (simp add: map_update thread_key_def list_update_same_conv)
  moreover have "thread_key ` set ((running sv)[i := t\<lparr>th_saved := True\<rparr>])
                   = thread_key ` set (running sv)"
    using calculation by (metis set_map)
  ultimately show ?thesis
    using assms(2) work(1) by (simp add: guarded_def)
next
  case (finish i t)
  let ?rest = "take i (running sv) @ drop (Suc i) (running sv)"
  have split: "running sv = take i (running sv) @ t # drop (Suc i) (running sv)"
    using finish(2,3) by (metis id_take_nth_drop)
  have d: "distinct (map thread_key (take i (running sv) @ t # drop (Suc i) (running sv)))"
    using assms(2) split by (simp add: guarded_def)
  have sub: "thread_key ` set (take i (running sv) @ t # drop (Suc i) (running sv))
               \<subseteq> dom (generating (state sv))"
    using assms(2) split by (simp add: guarded_def)
  have 1: "distinct (map thread_key ?rest)"
    using d by simp
  have 2: "thread_key t \<notin> thread_key ` set ?rest"
    using d by auto
  have 3: "thread_key ` set ?rest \<subseteq> dom (generating (state sv))"
    using sub by auto
  have 4: "thread_key ` set ?rest \<subseteq> dom ((generating (state sv))(thread_key t := None))"
  proof
    fix k
    assume k: "k \<in> thread_key ` set ?rest"
    with 2 have "k \<noteq> thread_key t"
      by blast
    moreover from k 3 have "k \<in> dom (generating (state sv))"
      by blast
    ultimately show "k \<in> dom ((generating (state sv))(thread_key t := None))"
      by simp
  qed
  have 5: "do_generate_finally (th_period t) (th_language t) (th_topic t) (state sv)
             = (state sv)\<lparr>generating := (generating (state sv))(thread_key t := None)\<rparr>"
    by (simp add: do_generate_finally_def thread_key_def)
  show ?thesis
    unfolding finish(1) guarded_def 5 using 1 4 by simp
qed

lemma reachable_guarded: "reachable sv \<Longrightarrow> guarded sv"
proof (induction rule: reachable.induct)
  case (init c)
  show ?case by (simp add: guarded_def)
next
  case (step sv sv')
  then show ?case by (blast intro: step_guarded)
qed

lemma guarded_in_progress: "guarded sv \<Longrightarrow> in_progress sv key \<le> 1"
proof -
  assume "guarded sv"
  then have d: "distinct (map thread_key (running sv))"
    by (simp add: guarded_def)
  have "in_progress sv key = length (filter (\<lambda>k. k = key) (map thread_key (running sv)))"
    by (simp add: in_progress_def filter_map comp_def)
  also have "\<dots> = card ({k. k = key} \<inter> set (map thread_key (running sv)))"
    using d by (rule distinct_length_filter)
  also have "\<dots> \<le> card {key}"
    by (intro card_mono) auto
  finally show ?thesis by simp
qed

lemma ex_kept: "kept_symbols ex_tickers = [''NVDA'', ''TSLA'']"
  by code_simp

lemma ex_removed:
  "map (\<lambda>s. upper (strip s)) (filter (\<lambda>s. strip s \<noteq> []) (split_on (CHR '','') ''nvda, ,aapl''))
     = [''NVDA'', ''AAPL'']"
  by code_simp

lemma ex_language: "pref_language (get_preferences None) = ''English''"
  by (simp add: get_preferences_def)

lemma ex_key: "summary_key ''24h'' ''English'' ''Market'' = ''24h:English:Market''"
  by (simp add: summary_key_def)

lemma ex_first_request:
  "finviz_summary None ex_now ex_now ''24h'' 0 ''Market'' (state ex_service0)
     = Inr (Generating ''24h'' ''English'' ''Market'', ex_state,
            Some (''24h'', ''English'', ''Market''))"
  by (simp add: finviz_summary_def Let_def ex_language ex_key get_cached_summary_def
        ex_service0_def ex_state_def)

lemma ex_step1: "step ex_service0 ex_service1"
proof -
  have "step ex_service0
          \<lparr>state = ex_state,
           running = running ex_service0 @ start (Some (''24h'', ''English'', ''Market''))\<rparr>"
    using ex_first_request by (rule step.request)
  then show ?thesis
    by (simp add: ex_service0_def ex_service1_def start_def ex_thread_def)
qed

lemma ex_fetch_day:
  "fetch_articles ex_env ''24h'' ''Market'' =
     Inr [\<lparr>a_title = ''Fed holds rates'', a_url = ''https://finviz.com/news/1'',
           a_date = Some ''2026-11-04T09:00:00+00:00'',
           a_content = Some ''Rates stay unchanged.''\<rparr>]"
  by code_simp

lemma ex_stamp: "isoformat ex_now = ''2026-11-04T12:30:00+00:00''"
  by code_simp

lemma do_generate_guard:
  "generating (snd (do_generate env period language topic s))
     = (generating s)(summary_key period language topic := None)"
  by (simp add: do_generate_def do_generate_finally_def split: prod.splits)

lemma do_generate_cache:
  "cache (snd (do_generate env period language topic s))
     = snd (do_generate_try env period language topic (cache s))"
  "fst (do_generate env period language topic s)
     = fst (do_generate_try env period language topic (cache s))"
  by (simp_all add: do_generate_def do_generate_finally_def split: prod.splits)

lemma save_written:
  "save_cached_summary Written now_key now_stamp c period language summary n topic
     = (Inr \<lparr>c_period = period, c_language = language, c_topic = topic,
              c_summary = summary, c_article_count = n,
              c_generated_at = isoformat now_stamp\<rparr>,
        c(cache_key now_key period language topic \<mapsto>
            Json \<lparr>c_period = period, c_language = language, c_topic = topic,
                   c_summary = summary, c_article_count = n,
                   c_generated_at = isoformat now_stamp\<rparr>))"
  by (simp add: save_cached_summary_def Let_def)

lemma save_raised:
  assumes "raised w = Some e"
  shows "fst (save_cached_summary w now_key now_stamp c period language summary n topic) = Inl e"
    and "\<forall>k. snd (save_cached_summary w now_key now_stamp c period language summary n topic) k
               = c k
             \<or> snd (save_cached_summary w now_key now_stamp c period language summary n topic) k
               = Some Unparsable"
  using assms by (cases w; simp add: save_cached_summary_def Let_def)+

lemma try_written:
  assumes "e_write env = Written"
  shows "fst (do_generate_try env period language topic c) = None
     \<and> (\<exists>d. snd (do_generate_try env period language topic c)
               (cache_key (e_now_key env) period language topic) = Some (Json d)
          \<and> c_period d = period \<and> c_language d = language \<and> c_topic d = topic
          \<and> (\<forall>e. fetch_articles env period topic = Inl e \<longrightarrow>
                c_summary d = ''Error: '' @ str_exn e \<and> c_article_count d = 0)
          \<and> (fetch_articles env period topic = Inr [] \<longrightarrow>
                c_summary d = no_articles_message topic
                \<and> take 17 (c_summary d) = ''No articles found'' \<and> c_article_count d = 0)
          \<and> (\<forall>articles e. fetch_articles env period topic = Inr articles \<and> articles \<noteq> []
                \<and> e_llm env articles period language topic = Inl e \<longrightarrow>
                c_summary d = ''Error: '' @ str_exn e \<and> c_article_count d = 0)
          \<and> (\<forall>articles summary. fetch_articles env period topic = Inr articles
                \<and> articles \<noteq> []
                \<and> e_llm env articles period language topic = Inr summary \<longrightarrow>
                c_summary d = summary \<and> c_article_count d = length articles))"
  using assms
  by (auto simp: do_generate_try_def do_generate_except_def save_written Let_def
        no_articles_message_def split: sum.splits)

lemma try_second_written:
  assumes "saves_in_try env period language topic" "raised (e_write env) = Some e"
    "e_write2 env = Written"
  shows "fst (do_generate_try env period language topic c) = None
     \<and> (\<exists>d. snd (do_generate_try env period language topic c)
               (cache_key (e_now_key2 env) period language topic) = Some (Json d)
          \<and> c_period d = period \<and> c_language d = language \<and> c_topic d = topic
          \<and> c_summary d = ''Error: '' @ str_exn e \<and> c_article_count d = 0)"
proof -
  let ?first = "\<lambda>summary n. save_cached_summary (e_write env) (e_now_key env)
                     (e_now_stamp env) c period language summary n topic"
  have in_try: "(case ?first summary n of
                   (Inr d, c') \<Rightarrow> (None, c')
                 | (Inl e', c') \<Rightarrow> do_generate_except
                      (\<lambda>summary n. save_cached_summary (e_write2 env) (e_now_key2 env)
                          (e_now_stamp2 env) c' period language summary n topic) e')
                = (None, (snd (?first summary n))
                     (cache_key (e_now_key2 env) period language topic \<mapsto>
                        Json \<lparr>c_period = period, c_language = language, c_topic = topic,
                               c_summary = ''Error: '' @ str_exn e, c_article_count = 0,
                               c_generated_at = isoformat (e_now_stamp2 env)\<rparr>))"
    for summary n
    using save_raised(1) [OF assms(2), of "e_now_key env" "e_now_stamp env" c period language
        summary n topic]
    by (cases "?first summary n")
       (simp add: do_generate_except_def assms(3) save_written)
  show ?thesis
    using assms(1)
    by (auto simp: do_generate_try_def saves_in_try_def Let_def in_try
          split: sum.splits if_splits)
qed

lemma except_raised:
  assumes "w \<noteq> Written"
  shows "fst (do_generate_except (\<lambda>summary n. save_cached_summary w now_key now_stamp c
                 period language summary n topic) e) = raised w
       \<and> raised w \<noteq> None
       \<and> (\<forall>k. snd (do_generate_except (\<lambda>summary n. save_cached_summary w now_key
                      now_stamp c period language summary n topic) e) k = c k
              \<or> snd (do_generate_except (\<lambda>summary n. save_cached_summary w now_key
                      now_stamp c period language summary n topic) e) k
                 = Some Unparsable)"
  using assms
  by (cases w) (simp_all add: do_generate_except_def save_cached_summary_def Let_def)

lemma try_uncaught:
  assumes "if saves_in_try env period language topic
           then e_write env \<noteq> Written \<and> e_write2 env \<noteq> Written
           else e_write env \<noteq> Written"
  shows "fst (do_generate_try env period language topic c)
           = (if saves_in_try env period language topic then raised (e_write2 env)
              else raised (e_write env))
     \<and> fst (do_generate_try env period language topic c) \<noteq> None
     \<and> (\<forall>k. snd (do_generate_try env period language topic c) k = c k
            \<or> snd (do_generate_try env period language topic c) k = Some Unparsable)"
proof -
  let ?first = "\<lambda>summary n. save_cached_summary (e_write env) (e_now_key env)
                     (e_now_stamp env) c period language summary n topic"
  let ?second = "\<lambda>c summary n. save_cached_summary (e_write2 env) (e_now_key2 env)
                     (e_now_stamp2 env) c period language summary n topic"
  let ?in_try = "\<lambda>summary n. case ?first summary n of
                                    (Inr d, c') \<Rightarrow> (None, c')
                                  | (Inl e, c') \<Rightarrow> do_generate_except (?second c') e"
  have in_try: "fst (?in_try summary n) = raised (e_write2 env)
              \<and> raised (e_write2 env) \<noteq> None
              \<and> (\<forall>k. snd (?in_try summary n) k = c k
                     \<or> snd (?in_try summary n) k = Some Unparsable)"
    if w: "e_write env \<noteq> Written" "e_write2 env \<noteq> Written" for summary n
  proof (cases "e_write env")
    case Written
    with w show ?thesis by simp
  next
    case (Refused e)
    then have "?in_try summary n = do_generate_except (?second c) e"
      by (simp add: save_cached_summary_def Let_def)
    with except_raised [OF w(2)] show ?thesis by simp
  next
    case (Torn e)
    let ?c' = "c(cache_key (e_now_key env) period language topic \<mapsto> Unparsable)"
    from Torn have eq: "?in_try summary n = do_generate_except (?second ?c') e"
      by (simp add: save_cached_summary_def Let_def)
    have c': "\<forall>k. ?c' k = c k \<or> ?c' k = Some Unparsable"
      by simp
    note ex = except_raised [OF w(2), of "e_now_key2 env" "e_now_stamp2 env" ?c' period
        language topic e]
    have "\<forall>k. snd (do_generate_except (?second ?c') e) k = c k
             \<or> snd (do_generate_except (?second ?c') e) k = Some Unparsable"
    proof
      fix k
      from ex have "snd (do_generate_except (?second ?c') e) k = ?c' k
                    \<or> snd (do_generate_except (?second ?c') e) k = Some Unparsable"
        by blast
      with c' show "snd (do_generate_except (?second ?c') e) k = c k
             \<or> snd (do_generate_except (?second ?c') e) k = Some Unparsable"
        by metis
    qed
    with ex show ?thesis
      unfolding eq by blast
  qed
  show ?thesis
  proof (cases "saves_in_try env period language topic")
    case True
    with assms have w: "e_write env \<noteq> Written" "e_write2 env \<noteq> Written"
      by simp_all
    from True have "\<exists>summary n. do_generate_try env period language topic c = ?in_try summary n"
      by (auto simp: do_generate_try_def saves_in_try_def Let_def split: sum.splits if_splits)
    then obtain summary n where "do_generate_try env period language topic c = ?in_try summary n"
      by blast
    with in_try [OF w, of summary n] True show ?thesis
      by simp
  next
    case False
    with assms have w: "e_write env \<noteq> Written"
      by simp
    from False have "\<exists>e. do_generate_try env period language topic c
                          = do_generate_except ?first e"
      by (auto simp: do_generate_try_def saves_in_try_def Let_def split: sum.splits if_splits)
    then obtain e where "do_generate_try env period language topic c
                           = do_generate_except ?first e"
      by blast
    with except_raised [OF w, of "e_now_key env" "e_now_stamp env" c period language topic e]
      False show ?thesis
      by simp
  qed
qed

lemma ex_env_fields:
  "e_llm ex_env = ex_llm_summary" "e_now_key ex_env = ex_now" "e_now_stamp ex_env = ex_now"
  "e_write ex_env = Written" "e_write2 ex_env = Written"
  by (simp_all add: ex_env_def)

lemma ex_saved:
  "do_generate_try ex_env ''24h'' ''English'' ''Market'' Map.empty
     = (None, [cache_key ex_now ''24h'' ''English'' ''Market'' \<mapsto> Json ex_data])"
  by (simp add: do_generate_try_def ex_fetch_day ex_env_fields ex_llm_summary_def
        save_written Let_def ex_stamp ex_data_def)

lemma ex_step2: "step ex_service1 ex_service2"
proof -
  have i: "0 < length (running ex_service1)" "running ex_service1 ! 0 = ex_thread"
    "\<not> th_saved ex_thread"
    by (simp_all add: ex_service1_def ex_thread_def)
  have "step ex_service1
          \<lparr>state = (state ex_service1)\<lparr>cache := snd (do_generate_try ex_env
               (th_period ex_thread) (th_language ex_thread) (th_topic ex_thread)
               (cache (state ex_service1)))\<rparr>,
           running = (running ex_service1)[0 := ex_thread\<lparr>th_saved := True\<rparr>]\<rparr>"
    using i by (rule step.work)
  moreover have "th_period ex_thread = ''24h''" "th_language ex_thread = ''English''"
    "th_topic ex_thread = ''Market''" "cache (state ex_service1) = Map.empty"
    by (simp_all add: ex_thread_def ex_service1_def ex_state_def)
  ultimately show ?thesis
    by (simp add: ex_saved ex_service1_def ex_service2_def ex_state_def)
qed

lemma ex_reachable: "reachable ex_service2"
proof -
  have "reachable ex_service0"
    unfolding ex_service0_def by (rule reachable.init)
  then have "reachable ex_service1"
    using ex_step1 by (rule reachable.step)
  then show ?thesis
    using ex_step2 by (rule reachable.step)
qed

lemma ex_ready:
  "finviz_summary None ex_now ex_now ''24h'' 0 ''Market'' (state ex_service2)
     = Inr (Ready ex_data True, state ex_service2, None)"
  by (simp add: finviz_summary_def Let_def ex_language ex_key get_cached_summary_def
        ex_service2_def)

lemma find_append:
  "find P (xs @ ys) = (case find P xs of None \<Rightarrow> find P ys | Some x \<Rightarrow> Some x)"
  by (induction xs) auto

lemma cached_translation_append:
  "cached_translation t pid lang = None \<Longrightarrow>
     cached_translation
       (t\<lparr>t_translations := t_translations t
            @ [\<lparr>tr_paper_id = pid, tr_language = lang, tr_abstract = a\<rparr>]\<rparr>) pid lang
       = Some \<lparr>tr_paper_id = pid, tr_language = lang, tr_abstract = a\<rparr>"
  by (simp add: cached_translation_def find_append)

lemma translate_hit:
  assumes "find (\<lambda>r. p_arxiv_id r = arxiv_id) (t_papers t) = Some row"
    and "p_abstract row = Some abstract" and "abstract \<noteq> []"
    and "get_translate_language pd = lang" and "lang \<noteq> []"
    and "cached_translation t (p_id row) lang = Some tr"
  shows "science_paper_translate (Some t) pd llm insert_ok arxiv_id
           = Inr (\<lparr>out_translated = tr_abstract tr, out_language = Some lang\<rparr>, t, [])"
  using assms by (simp add: science_paper_translate_def arxiv_db_conn_def Let_def)

lemma translate_miss:
  assumes "find (\<lambda>r. p_arxiv_id r = arxiv_id) (t_papers t) = Some row"
    and "p_abstract row = Some abstract" and "abstract \<noteq> []"
    and "get_translate_language pd = lang" and "lang \<noteq> []"
    and "cached_translation t (p_id row) lang = None"
  shows "science_paper_translate (Some t) pd llm insert_ok arxiv_id
           = Inr (\<lparr>out_translated = translate llm abstract lang, out_language = Some lang\<rparr>,
                  (if truthy (translate llm abstract lang) \<and> insert_ok
                   then t\<lparr>t_translations := t_translations t
                          @ [\<lparr>tr_paper_id = p_id row, tr_language = lang,
                              tr_abstract = translate llm abstract lang\<rparr>]\<rparr>
                   else t),
                  [(abstract, lang)])"
  using assms by (simp add: science_paper_translate_def arxiv_db_conn_def Let_def)

lemma ex_german: "get_translate_language ex_prefs_german = ''German''"
  by code_simp

lemma ex_spanish: "get_translate_language ex_prefs_spanish = ''Spanish''"
  by code_simp

lemma ex_paper:
  "find (\<lambda>r. p_arxiv_id r = ''2401.00001'') (t_papers ex_tables) = Some (t_papers ex_tables ! 0)"
  "p_abstract (t_papers ex_tables ! 0) = Some ''We revisit attention.''"
  "p_id (t_papers ex_tables ! 0) = 1"
  by (simp_all add: ex_tables_def)

lemma ex_translation: "translate ex_llm_translate ''We revisit attention.'' ''German''
                         = Some ''Wir betrachten Attention erneut.''"
  by code_simp

lemma ex_no_german: "cached_translation ex_tables 1 ''German'' = None"
  by (simp add: cached_translation_def ex_tables_def)

lemma ex_has_spanish:
  "cached_translation ex_tables 1 ''Spanish''
     = Some \<lparr>tr_paper_id = 1, tr_language = ''Spanish'',
             tr_abstract = Some ''Revisamos la atencion.''\<rparr>"
  by (simp add: cached_translation_def ex_tables_def)

lemma all_same_replicate: "\<forall>c \<in> set xs. c = a \<Longrightarrow> xs = replicate (length xs) a"
  by (induction xs) auto

lemma rstrip_chars_suffix: "\<exists>n. u = rstrip_chars ''/'' u @ replicate n (CHR ''/'')"
proof -
  let ?P = "\<lambda>c. c \<in> set ''/''"
  have "u = rev (takeWhile ?P (rev u) @ dropWhile ?P (rev u))"
    by simp
  then have split: "u = rev (dropWhile ?P (rev u)) @ rev (takeWhile ?P (rev u))"
    by (simp only: rev_append)
  have "\<forall>c \<in> set (rev (takeWhile ?P (rev u))). c = CHR ''/''"
    by (auto dest: set_takeWhileD)
  then have "rev (takeWhile ?P (rev u))
               = replicate (length (rev (takeWhile ?P (rev u)))) (CHR ''/'')"
    by (rule all_same_replicate)
  with split have "u = rstrip_chars ''/'' u
                       @ replicate (length (rev (takeWhile ?P (rev u)))) (CHR ''/'')"
    unfolding rstrip_chars_def by simp
  then show ?thesis ..
qed

lemma rstrip_chars_last:
  "rstrip_chars ''/'' u = [] \<or> last (rstrip_chars ''/'' u) \<noteq> CHR ''/''"
proof (cases "dropWhile (\<lambda>c. c \<in> set ''/'') (rev u)")
  case Nil
  then show ?thesis by (simp add: rstrip_chars_def)
next
  case (Cons y ys)
  then have "dropWhile (\<lambda>c. c \<in> set ''/'') (rev u) \<noteq> []"
    by simp
  then have "\<not> (hd (dropWhile (\<lambda>c. c \<in> set ''/'') (rev u)) \<in> set ''/'')"
    by (rule hd_dropWhile)
  with Cons show ?thesis
    by (simp add: rstrip_chars_def)
qed

lemma gateway_section_some:
  assumes "gateway_section cfg = Some gw"
  shows "gateway_from_config repr cfg
           = Inr (''http://''
                  @ format_value repr (case map_of gw ''host'' of
                                         None \<Rightarrow> JStr ''127.0.0.1'' | Some h \<Rightarrow> h)
                  @ '':''
                  @ format_value repr (case map_of gw ''port'' of
                                         None \<Rightarrow> JInt 18789 | Some p \<Rightarrow> p))"
proof (cases cfg)
  case (JDict kvs)
  show ?thesis
  proof (cases "map_of kvs ''gateway''")
    case None
    with assms JDict have "gw = []"
      by (simp add: gateway_section_def)
    with None JDict show ?thesis
      by (simp add: gateway_from_config_def dict_get_def)
  next
    case (Some v)
    with assms JDict have "v = JDict gw"
      by (cases v) (simp_all add: gateway_section_def)
    with Some JDict show ?thesis
      by (cases "map_of gw ''port''"; cases "map_of gw ''host''")
         (simp_all add: gateway_from_config_def dict_get_def)
  qed
qed (use assms in \<open>simp_all add: gateway_section_def\<close>)

lemma gateway_section_none:
  assumes "gateway_section cfg = None"
  shows "gateway_from_config repr cfg = Inl AttributeError"
proof (cases cfg)
  case (JDict kvs)
  show ?thesis
  proof (cases "map_of kvs ''gateway''")
    case None
    with assms JDict show ?thesis
      by (simp add: gateway_section_def)
  next
    case (Some v)
    with assms JDict show ?thesis
      by (cases v) (simp_all add: gateway_section_def gateway_from_config_def dict_get_def)
  qed
qed (simp_all add: gateway_from_config_def dict_get_def)

lemma ex_lookup:
  "cache (state ex_service2) (cache_key ex_now ''24h'' ''English'' ''Market'')
     = Some (Json ex_data)"
  "get_cached_summary ex_now (cache (state ex_service2)) ''24h'' ''English'' ''Market''
     = Some ex_data"
  "get_cached_summary ex_now (cache (state ex_service1)) ''24h'' ''English'' ''Market''
     = None"
  by (simp_all add: get_cached_summary_def ex_service1_def ex_service2_def ex_state_def)

lemma ex_saves_in_try:
  "saves_in_try ex_env ''24h'' ''English'' ''Market''"
  "saves_in_try ex_env_torn ''24h'' ''English'' ''Market''"
  "saves_in_try ex_env_disk_full ''24h'' ''English'' ''Market''"
  using ex_fetch_day
  by (simp_all add: saves_in_try_def fetch_articles_def ex_env_torn_def
        ex_env_disk_full_def ex_env_fields ex_llm_summary_def)

lemma ex_env_torn_fields:
  "e_write ex_env_torn = Torn ex_disk_full" "e_write2 ex_env_torn = Written"
  "e_now_key2 ex_env_torn = ex_later"
  by (simp_all add: ex_env_torn_def ex_env_def)

lemma ex_env_disk_full_fields:
  "e_write ex_env_disk_full = Refused ex_disk_full"
  "e_write2 ex_env_disk_full = Refused ex_disk_full"
  by (simp_all add: ex_env_disk_full_def ex_env_def)

section \<open>The claims\<close>

text \<open>
  C1, as the code has it. For a request with a valid period whose key
  \<^verbatim>\<open>period:language:topic\<close> is marked in \<^verbatim>\<open>_generating\<close>, the route starts no thread and
  leaves \<^verbatim>\<open>_generating\<close> as it is; it answers with status \<^verbatim>\<open>generating\<close>, except that
  with \<^verbatim>\<open>regenerate\<close> 0 and a cached summary for the current bucket it answers with that
  summary, status \<^verbatim>\<open>ready\<close> and \<^verbatim>\<open>generating\<close> true. A thread is started only when the
  key is absent, and the key is marked from then on. In every state the service
  reaches, at most one thread per key is running, and its key is marked.
\<close>

theorem generation_guard:
  "(period \<in> {''12h'', ''24h'', ''weekly''}
      \<and> summary_key period (pref_language (get_preferences pd)) topic
            \<in> dom (generating s) \<longrightarrow>
      finviz_summary pd now_unlink now_lookup period regenerate topic s
        = (if regenerate = 0
           then (case get_cached_summary now_lookup (cache s) period
                        (pref_language (get_preferences pd)) topic of
                   Some d \<Rightarrow> Inr (Ready d True, s, None)
                 | None \<Rightarrow>
                     Inr (Generating period (pref_language (get_preferences pd)) topic,
                          s, None))
           else Inr (Generating period (pref_language (get_preferences pd)) topic,
                     s\<lparr>cache := (cache s)(cache_key now_unlink period
                                    (pref_language (get_preferences pd)) topic := None)\<rparr>,
                     None)))
   \<and> (finviz_summary pd now_unlink now_lookup period regenerate topic s
         = Inr (resp, s', Some args) \<longrightarrow>
        args = (period, pref_language (get_preferences pd), topic)
        \<and> summary_key period (pref_language (get_preferences pd)) topic
              \<notin> dom (generating s)
        \<and> summary_key period (pref_language (get_preferences pd)) topic
              \<in> dom (generating s')
        \<and> response_status resp = ''generating'')
   \<and> (reachable sv \<longrightarrow>
        in_progress sv key \<le> 1
        \<and> (0 < in_progress sv key \<longrightarrow> key \<in> dom (generating (state sv))))"
proof (intro conjI impI)
  assume "period \<in> {''12h'', ''24h'', ''weekly''}
      \<and> summary_key period (pref_language (get_preferences pd)) topic \<in> dom (generating s)"
  then show "finviz_summary pd now_unlink now_lookup period regenerate topic s
        = (if regenerate = 0
           then (case get_cached_summary now_lookup (cache s) period
                        (pref_language (get_preferences pd)) topic of
                   Some d \<Rightarrow> Inr (Ready d True, s, None)
                 | None \<Rightarrow>
                     Inr (Generating period (pref_language (get_preferences pd)) topic,
                          s, None))
           else Inr (Generating period (pref_language (get_preferences pd)) topic,
                     s\<lparr>cache := (cache s)(cache_key now_unlink period
                                    (pref_language (get_preferences pd)) topic := None)\<rparr>,
                     None))"
    by (auto simp: finviz_summary_def Let_def split: option.splits)
next
  assume a: "finviz_summary pd now_unlink now_lookup period regenerate topic s
         = Inr (resp, s', Some args)"
  from finviz_summary_effect [OF a]
  show "args = (period, pref_language (get_preferences pd), topic)"
    "summary_key period (pref_language (get_preferences pd)) topic \<notin> dom (generating s)"
    "summary_key period (pref_language (get_preferences pd)) topic \<in> dom (generating s')"
    "response_status resp = ''generating''"
    by auto
next
  assume r: "reachable sv"
  then show "in_progress sv key \<le> 1"
    by (intro guarded_in_progress reachable_guarded)
  assume "0 < in_progress sv key"
  then have "\<exists>t \<in> set (running sv). thread_key t = key"
    by (auto simp: in_progress_def filter_empty_conv)
  with reachable_guarded [OF r] show "key \<in> dom (generating (state sv))"
    unfolding guarded_def by blast
qed

text \<open>
  C1 as the specification states it fails on the following input.
\<close>

theorem generation_guard_counterexample:
  "reachable ex_service2
   \<and> ''24h'' \<in> {''12h'', ''24h'', ''weekly''}
   \<and> summary_key ''24h'' (pref_language (get_preferences None)) ''Market''
        \<in> dom (generating (state ex_service2))
   \<and> finviz_summary None ex_now ex_now ''24h'' 0 ''Market'' (state ex_service2)
        = Inr (Ready ex_data True, state ex_service2, None)
   \<and> response_status (Ready ex_data True) = ''ready''
   \<and> response_status (Ready ex_data True) \<noteq> ''generating''"
  using ex_reachable ex_ready
  by (simp add: ex_language ex_key ex_service2_def)

theorem generation_guard_witness:
  "''24h'' \<in> {''12h'', ''24h'', ''weekly''}
   \<and> summary_key ''24h'' (pref_language (get_preferences None)) ''Market''
        \<in> dom (generating (state ex_service2))
   \<and> finviz_summary None ex_now ex_now ''24h'' 0 ''Market'' (state ex_service2)
        = Inr (Ready ex_data True, state ex_service2, None)
   \<and> summary_key ''24h'' (pref_language (get_preferences None)) ''Market''
        \<in> dom (generating (state ex_service1))
   \<and> finviz_summary None ex_now ex_now ''24h'' 0 ''Market'' (state ex_service1)
        = Inr (Generating ''24h'' ''English'' ''Market'', state ex_service1, None)
   \<and> finviz_summary None ex_now ex_now ''24h'' 0 ''Market'' (state ex_service0)
        = Inr (Generating ''24h'' ''English'' ''Market'', ex_state,
               Some (''24h'', ''English'', ''Market''))
   \<and> summary_key ''24h'' (pref_language (get_preferences None)) ''Market''
        \<notin> dom (generating (state ex_service0))
   \<and> summary_key ''24h'' (pref_language (get_preferences None)) ''Market''
        \<in> dom (generating ex_state)
   \<and> reachable ex_service2
   \<and> in_progress ex_service2 ''24h:English:Market'' = 1"
proof -
  have valid: "''24h'' \<in> {''12h'', ''24h'', ''weekly''}"
    by simp
  have marked2: "summary_key ''24h'' (pref_language (get_preferences None)) ''Market''
                  \<in> dom (generating (state ex_service2))"
    by (simp add: ex_language ex_key ex_service2_def)
  have marked1: "summary_key ''24h'' (pref_language (get_preferences None)) ''Market''
                  \<in> dom (generating (state ex_service1))"
    by (simp add: ex_language ex_key ex_service1_def ex_state_def)
  note ready = generation_guard
    [of "''24h''" None "''Market''" "state ex_service2" ex_now ex_now 0,
     THEN conjunct1, THEN mp, OF conjI [OF valid marked2], unfolded ex_language ex_lookup]
  note waiting = generation_guard
    [of "''24h''" None "''Market''" "state ex_service1" ex_now ex_now 0,
     THEN conjunct1, THEN mp, OF conjI [OF valid marked1], unfolded ex_language ex_lookup]
  note first = generation_guard
    [of "''24h''" None "''Market''" "state ex_service0" ex_now ex_now 0
        "Generating ''24h'' ''English'' ''Market''" ex_state
        "(''24h'', ''English'', ''Market'')" ex_service2 "''24h:English:Market''"]
  have 1: "finviz_summary None ex_now ex_now ''24h'' 0 ''Market'' (state ex_service2)
             = Inr (Ready ex_data True, state ex_service2, None)"
    using ready by simp
  have 2: "finviz_summary None ex_now ex_now ''24h'' 0 ''Market'' (state ex_service1)
             = Inr (Generating ''24h'' ''English'' ''Market'', state ex_service1, None)"
    using waiting by simp
  note started = first [THEN conjunct2, THEN conjunct1, THEN mp, OF ex_first_request]
  have 3: "summary_key ''24h'' (pref_language (get_preferences None)) ''Market''
             \<notin> dom (generating (state ex_service0))"
    using started by (elim conjE)
  have 4: "summary_key ''24h'' (pref_language (get_preferences None)) ''Market''
             \<in> dom (generating ex_state)"
    using started by (elim conjE)
  note one = first [THEN conjunct2, THEN conjunct2, THEN mp, OF ex_reachable]
  have "0 < in_progress ex_service2 ''24h:English:Market''"
    by (simp add: in_progress_def ex_service2_def thread_key_def ex_thread_def ex_key)
  moreover have "in_progress ex_service2 ''24h:English:Market'' \<le> 1"
    using one by (rule conjunct1)
  ultimately have 5: "in_progress ex_service2 ''24h:English:Market'' = 1"
    by simp
  show ?thesis
    by (intro conjI) (rule valid marked2 1 marked1 2 ex_first_request 3 4 ex_reachable 5)+
qed

text \<open>
  C2. The summary cache key is periodic. The key is the first 12 characters of the MD5
  hex digest of \<^verbatim>\<open>period:language:topic:bucket\<close>, so it has 12 characters and depends on
  the clock only through the bucket: the year and the ISO week number for \<^verbatim>\<open>weekly\<close>,
  the date and the hour divided by 6 for \<^verbatim>\<open>24h\<close>, the date and the hour divided by 3
  for every other period. Two times in the same bucket give the same key, and the cached
  summary is reused for the whole bucket: a summary stored under the key of one time,
  and so one that \<^verbatim>\<open>_save_cached_summary\<close> wrote at that time, is what
  \<^verbatim>\<open>_get_cached_summary\<close> returns at every other time of the bucket.
\<close>

theorem cache_key_periodic:
  "length (cache_key now period language topic) = 12
   \<and> cache_key now period language topic
       = take 12 (md5_hexdigest (period @ '':'' @ language @ '':'' @ topic @ '':''
                                  @ bucket now period))
   \<and> bucket now ''weekly'' = str_int (year now) @ ''-W'' @ str_int (iso_week now)
   \<and> bucket now ''24h'' = strftime_ymd now @ ''-'' @ str_int (hour now div 6)
   \<and> (period \<noteq> ''weekly'' \<and> period \<noteq> ''24h'' \<longrightarrow>
        bucket now period = strftime_ymd now @ ''-'' @ str_int (hour now div 3))
   \<and> (same_bucket period now now' \<longrightarrow>
        cache_key now period language topic = cache_key now' period language topic
        \<and> get_cached_summary now c period language topic
          = get_cached_summary now' c period language topic
        \<and> (\<forall>d. c (cache_key now period language topic) = Some (Json d) \<longrightarrow>
              get_cached_summary now' c period language topic = Some d)
        \<and> get_cached_summary now'
             (snd (save_cached_summary Written now now_stamp c period language summary n
                     topic))
             period language topic
           = Some \<lparr>c_period = period, c_language = language, c_topic = topic,
                    c_summary = summary, c_article_count = n,
                    c_generated_at = isoformat now_stamp\<rparr>)"
proof -
  have key: "length (cache_key now period language topic) = 12
   \<and> cache_key now period language topic
       = take 12 (md5_hexdigest (period @ '':'' @ language @ '':'' @ topic @ '':''
                                  @ bucket now period))"
    by (simp add: cache_key_def Let_def length_md5_hexdigest)
  have buckets: "bucket now ''weekly'' = str_int (year now) @ ''-W'' @ str_int (iso_week now)
   \<and> bucket now ''24h'' = strftime_ymd now @ ''-'' @ str_int (hour now div 6)
   \<and> (period \<noteq> ''weekly'' \<and> period \<noteq> ''24h'' \<longrightarrow>
        bucket now period = strftime_ymd now @ ''-'' @ str_int (hour now div 3))"
    by (simp add: bucket_def)
  have reuse: "cache_key now period language topic = cache_key now' period language topic
        \<and> get_cached_summary now c period language topic
          = get_cached_summary now' c period language topic
        \<and> (\<forall>d. c (cache_key now period language topic) = Some (Json d) \<longrightarrow>
              get_cached_summary now' c period language topic = Some d)
        \<and> get_cached_summary now'
             (snd (save_cached_summary Written now now_stamp c period language summary n
                     topic))
             period language topic
           = Some \<lparr>c_period = period, c_language = language, c_topic = topic,
                    c_summary = summary, c_article_count = n,
                    c_generated_at = isoformat now_stamp\<rparr>"
    if "same_bucket period now now'"
  proof -
    from that have "bucket now period = bucket now' period"
      by (rule same_bucket_bucket)
    then have k: "cache_key now' period language topic = cache_key now period language topic"
      by (simp add: cache_key_def)
    show ?thesis
      by (simp add: get_cached_summary_def k save_written)
  qed
  from key buckets reuse show ?thesis
    by blast
qed

theorem cache_key_periodic_witness:
  "''12h'' \<noteq> ''weekly'' \<and> ''12h'' \<noteq> ''24h''
   \<and> bucket ex_now ''12h'' = ''2026-11-04-4''
   \<and> same_bucket ''24h'' ex_now ex_later
   \<and> length (cache_key ex_now ''24h'' ''English'' ''Market'') = 12
   \<and> cache_key ex_now ''24h'' ''English'' ''Market''
       = cache_key ex_later ''24h'' ''English'' ''Market''
   \<and> cache (state ex_service2) (cache_key ex_now ''24h'' ''English'' ''Market'')
       = Some (Json ex_data)
   \<and> get_cached_summary ex_later (cache (state ex_service2)) ''24h'' ''English'' ''Market''
       = Some ex_data"
proof -
  have same: "same_bucket ''24h'' ex_now ex_later"
    by (simp add: same_bucket_def ex_now_def ex_later_def)
  have ne: "''12h'' \<noteq> ''weekly'' \<and> ''12h'' \<noteq> ''24h''"
    by simp
  have b: "strftime_ymd ex_now @ ''-'' @ str_int (hour ex_now div 3) = ''2026-11-04-4''"
    by code_simp
  note day = cache_key_periodic
    [of ex_now "''24h''" "''English''" "''Market''" ex_later "cache (state ex_service2)"]
  note half = cache_key_periodic
    [of ex_now "''12h''" "''English''" "''Market''" ex_later "cache (state ex_service2)"]
  have len: "length (cache_key ex_now ''24h'' ''English'' ''Market'') = 12"
    using day by (rule conjunct1)
  note bucket_day = day [THEN conjunct2, THEN conjunct2, THEN conjunct2, THEN conjunct2,
      THEN conjunct2, THEN mp, OF same]
  have eq: "cache_key ex_now ''24h'' ''English'' ''Market''
              = cache_key ex_later ''24h'' ''English'' ''Market''"
    using bucket_day by (rule conjunct1)
  have reused: "get_cached_summary ex_later (cache (state ex_service2)) ''24h'' ''English''
                  ''Market'' = Some ex_data"
    using bucket_day [THEN conjunct2, THEN conjunct2, THEN conjunct1, THEN spec, THEN mp,
        OF ex_lookup(1)] .
  have "bucket ex_now ''12h'' = strftime_ymd ex_now @ ''-'' @ str_int (hour ex_now div 3)"
    using half [THEN conjunct2, THEN conjunct2, THEN conjunct2, THEN conjunct2,
        THEN conjunct1, THEN mp, OF ne] .
  then have bk: "bucket ex_now ''12h'' = ''2026-11-04-4''"
    by (simp only: b)
  show ?thesis
    by (intro conjI) (rule ne [THEN conjunct1] ne [THEN conjunct2] bk same len eq
        ex_lookup(1) reused)+
qed

text \<open>
  C3, as the code has it. In every case \<^verbatim>\<open>_do_generate\<close> removes the key from
  \<^verbatim>\<open>_generating\<close>, the other keys staying as they were. When the first write of the
  cache file succeeds, it leaves a cache entry under the key of the bucket current at
  the time of saving and no exception leaves the thread: the LLM's summary with the
  number of fetched articles on success, the "No articles found" message with count 0
  when no article matches the period, and \<^verbatim>\<open>Error: \<close> followed by the exception's text
  with count 0 when fetching the articles or calling the LLM raises. When the write
  inside the \<^verbatim>\<open>try\<close> raises and the write of the \<^verbatim>\<open>except\<close> branch succeeds, the entry is
  \<^verbatim>\<open>Error: \<close> followed by the text of the write's exception, with count 0. When the
  write of the \<^verbatim>\<open>except\<close> branch raises, its exception leaves the thread and no summary
  is cached: every cache file is as it was or unparsable.
\<close>

theorem do_generate_caches_and_releases:
  "generating (snd (do_generate env period language topic s))
     = (generating s)(summary_key period language topic := None)
   \<and> summary_key period language topic
       \<notin> dom (generating (snd (do_generate env period language topic s)))
   \<and> (e_write env = Written \<longrightarrow>
        fst (do_generate env period language topic s) = None
        \<and> (\<exists>d. cache (snd (do_generate env period language topic s))
                  (cache_key (e_now_key env) period language topic) = Some (Json d)
             \<and> c_period d = period \<and> c_language d = language \<and> c_topic d = topic
             \<and> (\<forall>e. fetch_articles env period topic = Inl e \<longrightarrow>
                   c_summary d = ''Error: '' @ str_exn e \<and> c_article_count d = 0)
             \<and> (fetch_articles env period topic = Inr [] \<longrightarrow>
                   c_summary d = no_articles_message topic
                   \<and> take 17 (c_summary d) = ''No articles found''
                   \<and> c_article_count d = 0)
             \<and> (\<forall>articles e. fetch_articles env period topic = Inr articles
                   \<and> articles \<noteq> []
                   \<and> e_llm env articles period language topic = Inl e \<longrightarrow>
                   c_summary d = ''Error: '' @ str_exn e \<and> c_article_count d = 0)
             \<and> (\<forall>articles summary. fetch_articles env period topic = Inr articles
                   \<and> articles \<noteq> []
                   \<and> e_llm env articles period language topic = Inr summary \<longrightarrow>
                   c_summary d = summary \<and> c_article_count d = length articles)))
   \<and> (saves_in_try env period language topic \<and> raised (e_write env) = Some e
        \<and> e_write2 env = Written \<longrightarrow>
        fst (do_generate env period language topic s) = None
        \<and> (\<exists>d. cache (snd (do_generate env period language topic s))
                  (cache_key (e_now_key2 env) period language topic) = Some (Json d)
             \<and> c_period d = period \<and> c_language d = language \<and> c_topic d = topic
             \<and> c_summary d = ''Error: '' @ str_exn e \<and> c_article_count d = 0))
   \<and> ((if saves_in_try env period language topic
         then e_write env \<noteq> Written \<and> e_write2 env \<noteq> Written
         else e_write env \<noteq> Written) \<longrightarrow>
        fst (do_generate env period language topic s)
          = (if saves_in_try env period language topic then raised (e_write2 env)
             else raised (e_write env))
        \<and> fst (do_generate env period language topic s) \<noteq> None
        \<and> (\<forall>k. cache (snd (do_generate env period language topic s)) k = cache s k
               \<or> cache (snd (do_generate env period language topic s)) k
                  = Some Unparsable))"
proof (intro conjI impI)
  show g: "generating (snd (do_generate env period language topic s))
        = (generating s)(summary_key period language topic := None)"
    by (rule do_generate_guard)
  show "summary_key period language topic
          \<notin> dom (generating (snd (do_generate env period language topic s)))"
    unfolding g by simp
next
  assume w: "e_write env = Written"
  from try_written [OF w, of period language topic "cache s"]
  show "fst (do_generate env period language topic s) = None"
    unfolding do_generate_cache by (rule conjunct1)
  from try_written [OF w, of period language topic "cache s"]
  show "\<exists>d. cache (snd (do_generate env period language topic s))
                  (cache_key (e_now_key env) period language topic) = Some (Json d)
             \<and> c_period d = period \<and> c_language d = language \<and> c_topic d = topic
             \<and> (\<forall>e. fetch_articles env period topic = Inl e \<longrightarrow>
                   c_summary d = ''Error: '' @ str_exn e \<and> c_article_count d = 0)
             \<and> (fetch_articles env period topic = Inr [] \<longrightarrow>
                   c_summary d = no_articles_message topic
                   \<and> take 17 (c_summary d) = ''No articles found''
                   \<and> c_article_count d = 0)
             \<and> (\<forall>articles e. fetch_articles env period topic = Inr articles
                   \<and> articles \<noteq> []
                   \<and> e_llm env articles period language topic = Inl e \<longrightarrow>
                   c_summary d = ''Error: '' @ str_exn e \<and> c_article_count d = 0)
             \<and> (\<forall>articles summary. fetch_articles env period topic = Inr articles
                   \<and> articles \<noteq> []
                   \<and> e_llm env articles period language topic = Inr summary \<longrightarrow>
                   c_summary d = summary \<and> c_article_count d = length articles)"
    unfolding do_generate_cache by (rule conjunct2)
next
  assume a: "saves_in_try env period language topic \<and> raised (e_write env) = Some e
        \<and> e_write2 env = Written"
  then have a': "saves_in_try env period language topic" "raised (e_write env) = Some e"
    "e_write2 env = Written"
    by simp_all
  from try_second_written [OF a', of "cache s"]
  show "fst (do_generate env period language topic s) = None"
    unfolding do_generate_cache by (rule conjunct1)
  from try_second_written [OF a', of "cache s"]
  show "\<exists>d. cache (snd (do_generate env period language topic s))
                  (cache_key (e_now_key2 env) period language topic) = Some (Json d)
             \<and> c_period d = period \<and> c_language d = language \<and> c_topic d = topic
             \<and> c_summary d = ''Error: '' @ str_exn e \<and> c_article_count d = 0"
    unfolding do_generate_cache by (rule conjunct2)
next
  assume a: "if saves_in_try env period language topic
         then e_write env \<noteq> Written \<and> e_write2 env \<noteq> Written
         else e_write env \<noteq> Written"
  note u = try_uncaught [OF a, of "cache s"]
  from u show "fst (do_generate env period language topic s)
          = (if saves_in_try env period language topic then raised (e_write2 env)
             else raised (e_write env))"
    unfolding do_generate_cache by (rule conjunct1)
  from u show "fst (do_generate env period language topic s) \<noteq> None"
    unfolding do_generate_cache by (elim conjE)
  from u show "\<forall>k. cache (snd (do_generate env period language topic s)) k = cache s k
               \<or> cache (snd (do_generate env period language topic s)) k
                  = Some Unparsable"
    unfolding do_generate_cache by (elim conjE)
qed

text \<open>
  C3 as the specification states it fails on the following input: with a full disk both
  writes are refused, and the run leaves no cache entry.
\<close>

theorem do_generate_caches_and_releases_counterexample:
  "fst (do_generate ex_env_disk_full ''24h'' ''English'' ''Market'' ex_state)
     = Some ex_disk_full
   \<and> cache (snd (do_generate ex_env_disk_full ''24h'' ''English'' ''Market'' ex_state))
       = Map.empty
   \<and> generating (snd (do_generate ex_env_disk_full ''24h'' ''English'' ''Market'' ex_state))
       ''24h:English:Market'' = None"
proof -
  have f: "fetch_articles ex_env_disk_full ''24h'' ''Market''
             = fetch_articles ex_env ''24h'' ''Market''"
    by (simp add: fetch_articles_def ex_env_disk_full_def)
  have l: "e_llm ex_env_disk_full = ex_llm_summary"
    by (simp add: ex_env_disk_full_def ex_env_def)
  have "do_generate_try ex_env_disk_full ''24h'' ''English'' ''Market'' Map.empty
          = (Some ex_disk_full, Map.empty)"
    by (simp add: do_generate_try_def f ex_fetch_day l ex_llm_summary_def
          ex_env_disk_full_fields save_cached_summary_def do_generate_except_def Let_def)
  then show ?thesis
    by (simp add: do_generate_def do_generate_finally_def ex_state_def ex_key)
qed

theorem do_generate_caches_and_releases_witness:
  "e_write ex_env = Written
   \<and> (\<exists>articles. fetch_articles ex_env ''24h'' ''Market'' = Inr articles
         \<and> articles \<noteq> [] \<and> length articles = 1
         \<and> e_llm ex_env articles ''24h'' ''English'' ''Market''
             = Inr ''Markets were calm.'')
   \<and> (\<exists>d. cache (snd (do_generate ex_env ''24h'' ''English'' ''Market'' ex_state))
             (cache_key ex_now ''24h'' ''English'' ''Market'') = Some (Json d)
         \<and> c_summary d = ''Markets were calm.'' \<and> c_article_count d = 1)
   \<and> summary_key ''24h'' ''English'' ''Market''
       \<notin> dom (generating (snd (do_generate ex_env ''24h'' ''English'' ''Market'' ex_state)))
   \<and> saves_in_try ex_env_torn ''24h'' ''English'' ''Market''
   \<and> raised (e_write ex_env_torn) = Some ex_disk_full
   \<and> e_write2 ex_env_torn = Written
   \<and> (\<exists>d. cache (snd (do_generate ex_env_torn ''24h'' ''English'' ''Market'' ex_state))
             (cache_key ex_later ''24h'' ''English'' ''Market'') = Some (Json d)
         \<and> c_summary d = ''Error: [Errno 28] No space left on device''
         \<and> c_article_count d = 0)
   \<and> saves_in_try ex_env_disk_full ''24h'' ''English'' ''Market''
   \<and> e_write ex_env_disk_full \<noteq> Written \<and> e_write2 ex_env_disk_full \<noteq> Written
   \<and> fst (do_generate ex_env_disk_full ''24h'' ''English'' ''Market'' ex_state)
       = Some ex_disk_full"
proof -
  have llm: "e_llm ex_env articles ''24h'' ''English'' ''Market'' = Inr ''Markets were calm.''"
    for articles by (simp add: ex_env_fields ex_llm_summary_def)
  note ok = do_generate_caches_and_releases
    [of ex_env "''24h''" "''English''" "''Market''" ex_state]
  note torn = do_generate_caches_and_releases
    [of ex_env_torn "''24h''" "''English''" "''Market''" ex_state ex_disk_full]
  note full = do_generate_caches_and_releases
    [of ex_env_disk_full "''24h''" "''English''" "''Market''" ex_state]
  have 1: "\<exists>articles. fetch_articles ex_env ''24h'' ''Market'' = Inr articles
         \<and> articles \<noteq> [] \<and> length articles = 1
         \<and> e_llm ex_env articles ''24h'' ''English'' ''Market''
             = Inr ''Markets were calm.''"
    by (simp add: ex_fetch_day llm)
  from ok [THEN conjunct2, THEN conjunct2, THEN conjunct1, THEN mp, OF ex_env_fields(4),
      THEN conjunct2]
  obtain d where d: "cache (snd (do_generate ex_env ''24h'' ''English'' ''Market'' ex_state))
             (cache_key (e_now_key ex_env) ''24h'' ''English'' ''Market'') = Some (Json d)"
    and s: "\<forall>articles summary. fetch_articles ex_env ''24h'' ''Market'' = Inr articles
                   \<and> articles \<noteq> []
                   \<and> e_llm ex_env articles ''24h'' ''English'' ''Market'' = Inr summary \<longrightarrow>
                   c_summary d = summary \<and> c_article_count d = length articles"
    by blast
  from s ex_fetch_day llm have "c_summary d = ''Markets were calm.'' \<and> c_article_count d = 1"
    by simp
  with d have 2: "\<exists>d. cache (snd (do_generate ex_env ''24h'' ''English'' ''Market'' ex_state))
             (cache_key ex_now ''24h'' ''English'' ''Market'') = Some (Json d)
         \<and> c_summary d = ''Markets were calm.'' \<and> c_article_count d = 1"
    unfolding ex_env_fields by blast
  have 3: "summary_key ''24h'' ''English'' ''Market''
       \<notin> dom (generating (snd (do_generate ex_env ''24h'' ''English'' ''Market'' ex_state)))"
    using ok [THEN conjunct2, THEN conjunct1] .
  have r: "raised (e_write ex_env_torn) = Some ex_disk_full"
    by (simp add: ex_env_torn_fields)
  from torn [THEN conjunct2, THEN conjunct2, THEN conjunct2, THEN conjunct1, THEN mp,
      OF conjI [OF ex_saves_in_try(2) conjI [OF r ex_env_torn_fields(2)]], THEN conjunct2]
  have 4: "\<exists>d. cache (snd (do_generate ex_env_torn ''24h'' ''English'' ''Market'' ex_state))
             (cache_key ex_later ''24h'' ''English'' ''Market'') = Some (Json d)
         \<and> c_summary d = ''Error: [Errno 28] No space left on device''
         \<and> c_article_count d = 0"
    by (auto simp: ex_env_torn_fields ex_disk_full_def)
  have w: "e_write ex_env_disk_full \<noteq> Written" "e_write2 ex_env_disk_full \<noteq> Written"
    by (simp_all add: ex_env_disk_full_fields)
  have "if saves_in_try ex_env_disk_full ''24h'' ''English'' ''Market''
        then e_write ex_env_disk_full \<noteq> Written \<and> e_write2 ex_env_disk_full \<noteq> Written
        else e_write ex_env_disk_full \<noteq> Written"
    using ex_saves_in_try(3) w by simp
  from full [THEN conjunct2, THEN conjunct2, THEN conjunct2, THEN conjunct2, THEN mp,
      OF this, THEN conjunct1]
  have 5: "fst (do_generate ex_env_disk_full ''24h'' ''English'' ''Market'' ex_state)
             = Some ex_disk_full"
    by (simp add: ex_saves_in_try(3) ex_env_disk_full_fields)
  show ?thesis
    by (intro conjI) (rule ex_env_fields(4) 1 2 3 ex_saves_in_try(2) r ex_env_torn_fields(2)
        4 ex_saves_in_try(3) w 5)+
qed

text \<open>
  C4, as the code has it. For a paper in the \<^verbatim>\<open>papers\<close> table with a non-empty abstract
  and a configured non-empty target language, the translate route first looks up the
  \<^verbatim>\<open>translations\<close> table for (paper id, language) and, if a row exists, returns the
  stored translation without a request to the LLM endpoint. Otherwise it asks the LLM
  once; when the answer is a non-empty translation and the database accepts the
  \<^verbatim>\<open>INSERT\<close>, the translation is appended to \<^verbatim>\<open>translations\<close> and every later identical
  request returns it from there without a request to the LLM; when the \<^verbatim>\<open>INSERT\<close>
  raises, the exception is swallowed and the tables stay as they were.
\<close>

theorem translation_cached:
  assumes "find (\<lambda>r. p_arxiv_id r = arxiv_id) (t_papers t) = Some row"
    and "p_abstract row = Some abstract" and "abstract \<noteq> []"
    and "get_translate_language pd = lang" and "lang \<noteq> []"
  shows "(\<forall>tr. cached_translation t (p_id row) lang = Some tr \<longrightarrow>
            science_paper_translate (Some t) pd llm insert_ok arxiv_id
              = Inr (\<lparr>out_translated = tr_abstract tr, out_language = Some lang\<rparr>, t, []))
       \<and> (cached_translation t (p_id row) lang = None \<longrightarrow>
            (\<exists>t'. science_paper_translate (Some t) pd llm insert_ok arxiv_id
                     = Inr (\<lparr>out_translated = translate llm abstract lang,
                             out_language = Some lang\<rparr>, t', [(abstract, lang)])
               \<and> (\<forall>tx. translate llm abstract lang = Some tx \<and> tx \<noteq> [] \<and> insert_ok \<longrightarrow>
                     t' = t\<lparr>t_translations := t_translations t
                              @ [\<lparr>tr_paper_id = p_id row, tr_language = lang,
                                  tr_abstract = Some tx\<rparr>]\<rparr>
                     \<and> (\<forall>llm' ok'. science_paper_translate (Some t') pd llm' ok' arxiv_id
                           = Inr (\<lparr>out_translated = Some tx, out_language = Some lang\<rparr>,
                                  t', [])))
               \<and> (\<not> insert_ok \<longrightarrow> t' = t)))"
proof (intro conjI allI impI)
  fix tr
  assume "cached_translation t (p_id row) lang = Some tr"
  with assms show "science_paper_translate (Some t) pd llm insert_ok arxiv_id
              = Inr (\<lparr>out_translated = tr_abstract tr, out_language = Some lang\<rparr>, t, [])"
    by (rule translate_hit)
next
  assume miss: "cached_translation t (p_id row) lang = None"
  let ?t' = "if truthy (translate llm abstract lang) \<and> insert_ok
             then t\<lparr>t_translations := t_translations t
                    @ [\<lparr>tr_paper_id = p_id row, tr_language = lang,
                        tr_abstract = translate llm abstract lang\<rparr>]\<rparr>
             else t"
  have res: "science_paper_translate (Some t) pd llm insert_ok arxiv_id
               = Inr (\<lparr>out_translated = translate llm abstract lang,
                       out_language = Some lang\<rparr>, ?t', [(abstract, lang)])"
    using assms miss by (rule translate_miss)
  have ins: "?t' = t\<lparr>t_translations := t_translations t
                              @ [\<lparr>tr_paper_id = p_id row, tr_language = lang,
                                  tr_abstract = Some tx\<rparr>]\<rparr>
             \<and> (\<forall>llm' ok'. science_paper_translate (Some ?t') pd llm' ok' arxiv_id
                   = Inr (\<lparr>out_translated = Some tx, out_language = Some lang\<rparr>, ?t', []))"
    if t: "translate llm abstract lang = Some tx \<and> tx \<noteq> [] \<and> insert_ok" for tx
  proof -
    let ?new = "\<lparr>tr_paper_id = p_id row, tr_language = lang, tr_abstract = Some tx\<rparr>"
    let ?u = "t\<lparr>t_translations := t_translations t @ [?new]\<rparr>"
    have eq: "?t' = ?u"
      using t by (simp add: truthy_def)
    have row: "find (\<lambda>r. p_arxiv_id r = arxiv_id) (t_papers ?u) = Some row"
      using assms(1) by simp
    have hit: "cached_translation ?u (p_id row) lang = Some ?new"
      using miss by (rule cached_translation_append)
    have "science_paper_translate (Some ?u) pd llm' ok' arxiv_id
            = Inr (\<lparr>out_translated = tr_abstract ?new, out_language = Some lang\<rparr>, ?u, [])"
      for llm' ok'
      using row assms(2-5) hit by (rule translate_hit)
    then show ?thesis
      unfolding eq by simp
  qed
  have keep: "?t' = t" if "\<not> insert_ok"
    using that by simp
  from res ins keep
  show "\<exists>t'. science_paper_translate (Some t) pd llm insert_ok arxiv_id
                     = Inr (\<lparr>out_translated = translate llm abstract lang,
                             out_language = Some lang\<rparr>, t', [(abstract, lang)])
               \<and> (\<forall>tx. translate llm abstract lang = Some tx \<and> tx \<noteq> [] \<and> insert_ok \<longrightarrow>
                     t' = t\<lparr>t_translations := t_translations t
                              @ [\<lparr>tr_paper_id = p_id row, tr_language = lang,
                                  tr_abstract = Some tx\<rparr>]\<rparr>
                     \<and> (\<forall>llm' ok'. science_paper_translate (Some t') pd llm' ok' arxiv_id
                           = Inr (\<lparr>out_translated = Some tx, out_language = Some lang\<rparr>,
                                  t', [])))
               \<and> (\<not> insert_ok \<longrightarrow> t' = t)"
    by blast
qed

text \<open>
  C4 as the specification states it fails on the following input.
\<close>

theorem translation_cached_counterexample:
  "translate ex_llm_translate ''We revisit attention.'' ''German''
     = Some ''Wir betrachten Attention erneut.''
   \<and> science_paper_translate (Some ex_tables) ex_prefs_german ex_llm_translate False
         ''2401.00001''
       = Inr (\<lparr>out_translated = Some ''Wir betrachten Attention erneut.'',
               out_language = Some ''German''\<rparr>,
              ex_tables, [(''We revisit attention.'', ''German'')])
   \<and> cached_translation ex_tables 1 ''German'' = None"
proof -
  have "science_paper_translate (Some ex_tables) ex_prefs_german ex_llm_translate False
          ''2401.00001''
        = Inr (\<lparr>out_translated = Some ''Wir betrachten Attention erneut.'',
                out_language = Some ''German''\<rparr>,
               ex_tables, [(''We revisit attention.'', ''German'')])"
    using translate_miss [OF ex_paper(1,2) _ ex_german, of ex_llm_translate False]
    by (simp add: ex_paper(3) ex_no_german ex_translation)
  with ex_translation ex_no_german show ?thesis
    by (intro conjI)
qed

theorem translation_cached_witness:
  "find (\<lambda>r. p_arxiv_id r = ''2401.00001'') (t_papers ex_tables) = Some (t_papers ex_tables ! 0)
   \<and> p_abstract (t_papers ex_tables ! 0) = Some ''We revisit attention.''
   \<and> ''We revisit attention.'' \<noteq> []
   \<and> get_translate_language ex_prefs_spanish = ''Spanish'' \<and> ''Spanish'' \<noteq> []
   \<and> science_paper_translate (Some ex_tables) ex_prefs_spanish ex_llm_translate True
         ''2401.00001''
       = Inr (\<lparr>out_translated = Some ''Revisamos la atencion.'',
               out_language = Some ''Spanish''\<rparr>, ex_tables, [])
   \<and> get_translate_language ex_prefs_german = ''German'' \<and> ''German'' \<noteq> []
   \<and> cached_translation ex_tables 1 ''German'' = None
   \<and> (\<exists>t'. science_paper_translate (Some ex_tables) ex_prefs_german ex_llm_translate True
               ''2401.00001''
             = Inr (\<lparr>out_translated = Some ''Wir betrachten Attention erneut.'',
                     out_language = Some ''German''\<rparr>,
                    t', [(''We revisit attention.'', ''German'')])
          \<and> science_paper_translate (Some t') ex_prefs_german ex_llm_translate True
               ''2401.00001''
             = Inr (\<lparr>out_translated = Some ''Wir betrachten Attention erneut.'',
                     out_language = Some ''German''\<rparr>, t', []))"
proof -
  have ne: "''We revisit attention.'' \<noteq> []" "''Spanish'' \<noteq> []" "''German'' \<noteq> []"
    by simp_all
  note es = translation_cached
    [OF ex_paper(1,2) ne(1) ex_spanish ne(2), of ex_llm_translate True, unfolded ex_paper(3)]
  note de = translation_cached
    [OF ex_paper(1,2) ne(1) ex_german ne(3), of ex_llm_translate True, unfolded ex_paper(3)]
  have hit: "science_paper_translate (Some ex_tables) ex_prefs_spanish ex_llm_translate True
         ''2401.00001''
       = Inr (\<lparr>out_translated = Some ''Revisamos la atencion.'',
               out_language = Some ''Spanish''\<rparr>, ex_tables, [])"
    using es [THEN conjunct1, rule_format, OF ex_has_spanish] by simp
  from de [THEN conjunct2, THEN mp, OF ex_no_german]
  obtain t' where
    1: "science_paper_translate (Some ex_tables) ex_prefs_german ex_llm_translate True
           ''2401.00001''
         = Inr (\<lparr>out_translated = translate ex_llm_translate ''We revisit attention.'' ''German'',
                 out_language = Some ''German''\<rparr>,
                t', [(''We revisit attention.'', ''German'')])"
    and 2: "\<forall>tx. translate ex_llm_translate ''We revisit attention.'' ''German'' = Some tx
                 \<and> tx \<noteq> [] \<and> True \<longrightarrow>
              t' = ex_tables\<lparr>t_translations := t_translations ex_tables
                              @ [\<lparr>tr_paper_id = 1, tr_language = ''German'',
                                  tr_abstract = Some tx\<rparr>]\<rparr>
              \<and> (\<forall>llm' ok'. science_paper_translate (Some t') ex_prefs_german llm' ok'
                                ''2401.00001''
                    = Inr (\<lparr>out_translated = Some tx, out_language = Some ''German''\<rparr>,
                           t', []))"
    by blast
  have "''Wir betrachten Attention erneut.'' \<noteq> []"
    by simp
  with ex_translation
  have "translate ex_llm_translate ''We revisit attention.'' ''German''
          = Some ''Wir betrachten Attention erneut.''
        \<and> ''Wir betrachten Attention erneut.'' \<noteq> [] \<and> True"
    by (intro conjI TrueI)
  from 2 [THEN spec, THEN mp, OF this, THEN conjunct2, THEN spec, THEN spec]
  have 3: "science_paper_translate (Some t') ex_prefs_german ex_llm_translate True
               ''2401.00001''
             = Inr (\<lparr>out_translated = Some ''Wir betrachten Attention erneut.'',
                     out_language = Some ''German''\<rparr>, t', [])" .
  have miss: "\<exists>t'. science_paper_translate (Some ex_tables) ex_prefs_german ex_llm_translate True
               ''2401.00001''
             = Inr (\<lparr>out_translated = Some ''Wir betrachten Attention erneut.'',
                     out_language = Some ''German''\<rparr>,
                    t', [(''We revisit attention.'', ''German'')])
          \<and> science_paper_translate (Some t') ex_prefs_german ex_llm_translate True
               ''2401.00001''
             = Inr (\<lparr>out_translated = Some ''Wir betrachten Attention erneut.'',
                     out_language = Some ''German''\<rparr>, t', [])"
    using 1 [unfolded ex_translation] 3 by (intro exI conjI)
  show ?thesis
    by (intro conjI) (rule ex_paper ne ex_spanish ex_german hit ex_no_german miss)+
qed

text \<open>
  C5. Headline listing is filtered and paginated. For \<^verbatim>\<open>hours\<close> in [1,720] and \<^verbatim>\<open>limit\<close>
  in [1,500], with the database present, \<^verbatim>\<open>GET /headlines\<close> answers; it returns at most
  \<^verbatim>\<open>limit\<close> headlines; every one has a \<^verbatim>\<open>publish_at\<close> that is at least the ISO text of
  the current UTC time minus \<^verbatim>\<open>hours\<close> (the comparison SQLite makes on the stored text);
  the headlines are in descending order of \<^verbatim>\<open>publish_at\<close>; and \<^verbatim>\<open>count\<close> is the number
  of headlines returned.
\<close>

theorem headlines_filtered_paginated:
  assumes "1 \<le> hours" "hours \<le> 720" "1 \<le> limit" "limit \<le> 500"
  shows "\<exists>r. finviz_headlines (Some table) now hours limit = Inr r
           \<and> length (headlines r) \<le> nat limit
           \<and> (\<forall>h \<in> set (headlines r). \<exists>p. h_date h = Some p
                  \<and> isoformat (minus_hours now hours) \<le> p)
           \<and> sorted (rev (map h_date (headlines r)))
           \<and> count r = length (headlines r)"
  using assms
    sorted_desc_take [of "nat limit" "filter (since (isoformat (minus_hours now hours))) table"]
  by (auto simp: finviz_headlines_def db_conn_def Let_def comp_def
        dest!: selected_rows sinceD)

theorem headlines_filtered_paginated_witness:
  "(1::int) \<le> 24 \<and> (24::int) \<le> 720 \<and> (1::int) \<le> 1 \<and> (1::int) \<le> 500
   \<and> (\<exists>r. finviz_headlines (Some ex_articles) ex_now 24 1 = Inr r
         \<and> length (headlines r) \<le> 1
         \<and> (\<forall>h \<in> set (headlines r). \<exists>p. h_date h = Some p
                \<and> ''2026-11-03T12:30:00+00:00'' \<le> p)
         \<and> sorted (rev (map h_date (headlines r)))
         \<and> count r = length (headlines r))"
  using headlines_filtered_paginated [of 24 1 ex_articles ex_now]
  by (simp add: ex_cutoff_day)

text \<open>
  C6. Static file serving. \<^verbatim>\<open>GET /pdf/{arxiv_id}\<close> serves the file at
  \<^verbatim>\<open>os.path.join(data_dir, "pdfs", arxiv_id + ".pdf")\<close> with media type
  \<^verbatim>\<open>application/pdf\<close> when that file exists and raises 404 "PDF not found" when it does
  not; for a data directory without a trailing slash and an identifier without a slash
  (a path parameter has none) that path is \<^verbatim>\<open>{data_dir}/pdfs/{arxiv_id}.pdf\<close>. For a
  stored article, \<^verbatim>\<open>GET /article\<close> returns the text of the \<^verbatim>\<open>article_path\<close> file as
  content when the file exists, and content null when the path is unset or the file is
  missing.
\<close>

theorem static_file_serving:
  "(fs (pdf_path data_dir arxiv_id) \<noteq> None \<longrightarrow>
      (\<exists>r. science_pdf fs data_dir arxiv_id = Inr r
           \<and> fr_path r = pdf_path data_dir arxiv_id
           \<and> fr_media_type r = ''application/pdf''))
   \<and> (fs (pdf_path data_dir arxiv_id) = None \<longrightarrow>
        science_pdf fs data_dir arxiv_id = Inl (HTTPException 404 ''PDF not found''))
   \<and> (data_dir \<noteq> [] \<and> last data_dir \<noteq> CHR ''/'' \<and> CHR ''/'' \<notin> set arxiv_id \<longrightarrow>
        pdf_path data_dir arxiv_id = data_dir @ ''/pdfs/'' @ arxiv_id @ ''.pdf'')
   \<and> (find (\<lambda>r. url r = u) table = Some row \<longrightarrow>
        (\<exists>a. finviz_article (Some table) fs articles_dir u = Inr a
           \<and> (\<forall>p text. article_path row = Some p \<and> p \<noteq> []
                  \<and> fs (path_join articles_dir p) = Some text \<longrightarrow> a_content a = Some text)
           \<and> (article_path row = None \<or> article_path row = Some []
                \<or> (\<exists>p. article_path row = Some p \<and> fs (path_join articles_dir p) = None)
                \<longrightarrow> a_content a = None)))"
  using pdf_path_shape [of data_dir arxiv_id]
  by (auto simp: science_pdf_def Let_def finviz_article_def db_conn_def read_article_def)

theorem static_file_serving_witness:
  "ex_files (pdf_path ''/data/arxivkb'' ''2401.00001'') \<noteq> None
   \<and> ''/data/arxivkb'' \<noteq> [] \<and> last ''/data/arxivkb'' \<noteq> CHR ''/''
   \<and> CHR ''/'' \<notin> set ''2401.00001''
   \<and> (\<exists>r. science_pdf ex_files ''/data/arxivkb'' ''2401.00001'' = Inr r
         \<and> fr_path r = ''/data/arxivkb/pdfs/2401.00001.pdf''
         \<and> fr_media_type r = ''application/pdf'')
   \<and> ex_files (pdf_path ''/data/arxivkb'' ''2401.00002'') = None
   \<and> science_pdf ex_files ''/data/arxivkb'' ''2401.00002''
       = Inl (HTTPException 404 ''PDF not found'')
   \<and> find (\<lambda>r. url r = ''https://finviz.com/news/1'') ex_articles = Some ex_row1
   \<and> (\<exists>a. finviz_article (Some ex_articles) ex_files ''/data/articles''
              ''https://finviz.com/news/1'' = Inr a
         \<and> a_content a = Some ''Rates stay unchanged.'')
   \<and> find (\<lambda>r. url r = ''https://finviz.com/news/3'') ex_articles = Some ex_row3
   \<and> (\<exists>a. finviz_article (Some ex_articles) ex_files ''/data/articles''
              ''https://finviz.com/news/3'' = Inr a
         \<and> a_content a = None)"
proof -
  have pdf1: "ex_files (pdf_path ''/data/arxivkb'' ''2401.00001'') \<noteq> None"
    by code_simp
  have shape: "''/data/arxivkb'' \<noteq> [] \<and> last ''/data/arxivkb'' \<noteq> CHR ''/''
                 \<and> CHR ''/'' \<notin> set ''2401.00001''"
    by simp
  have pdf2: "ex_files (pdf_path ''/data/arxivkb'' ''2401.00002'') = None"
    by code_simp
  have row1: "find (\<lambda>r. url r = ''https://finviz.com/news/1'') ex_articles = Some ex_row1"
    by (simp add: ex_articles_def ex_row1_def)
  have path1: "article_path ex_row1 = Some ''1.txt'' \<and> ''1.txt'' \<noteq> []
                 \<and> ex_files (path_join ''/data/articles'' ''1.txt'')
                     = Some ''Rates stay unchanged.''"
    by code_simp
  have row3: "find (\<lambda>r. url r = ''https://finviz.com/news/3'') ex_articles = Some ex_row3"
    by (simp add: ex_articles_def ex_row1_def ex_row2_def ex_row3_def)
  have path3: "article_path ex_row3 = Some ''3.txt''
                 \<and> ex_files (path_join ''/data/articles'' ''3.txt'') = None"
    by code_simp
  note one = static_file_serving
    [of ex_files "''/data/arxivkb''" "''2401.00001''" "''https://finviz.com/news/1''"
        ex_articles ex_row1 "''/data/articles''"]
  note two = static_file_serving
    [of ex_files "''/data/arxivkb''" "''2401.00002''" "''https://finviz.com/news/3''"
        ex_articles ex_row3 "''/data/articles''"]
  have served: "\<exists>r. science_pdf ex_files ''/data/arxivkb'' ''2401.00001'' = Inr r
                  \<and> fr_path r = ''/data/arxivkb/pdfs/2401.00001.pdf''
                  \<and> fr_media_type r = ''application/pdf''"
    using one pdf1 shape by auto
  have missing: "science_pdf ex_files ''/data/arxivkb'' ''2401.00002''
                   = Inl (HTTPException 404 ''PDF not found'')"
    using two pdf2 by blast
  have text1: "\<exists>a. finviz_article (Some ex_articles) ex_files ''/data/articles''
                      ''https://finviz.com/news/1'' = Inr a
                 \<and> a_content a = Some ''Rates stay unchanged.''"
    using one row1 path1 by blast
  have text3: "\<exists>a. finviz_article (Some ex_articles) ex_files ''/data/articles''
                      ''https://finviz.com/news/3'' = Inr a
                 \<and> a_content a = None"
    using two row3 path3 by blast
  from pdf1 shape served pdf2 missing row1 text1 row3 text3 show ?thesis
    by blast
qed

text \<open>
  C7, as the code has it. \<^verbatim>\<open>get_gateway_url\<close> returns the environment variable with its
  trailing slashes removed whenever it is set and non-empty; otherwise, when the config
  file parses to an object whose \<^verbatim>\<open>gateway\<close> member is absent or an object, it returns
  \<^verbatim>\<open>http://{host}:{port}\<close> from that section, with host 127.0.0.1 and port 18789 as
  defaults; otherwise (no file, a file that does not parse, or a document of another
  shape) it returns \<^verbatim>\<open>http://localhost:18789\<close>.
\<close>

theorem gateway_url_precedence:
  "(env_url = Some u \<and> u \<noteq> [] \<longrightarrow>
      get_gateway_url repr env_url config = rstrip_chars ''/'' u
      \<and> (\<exists>n. u = rstrip_chars ''/'' u @ replicate n (CHR ''/''))
      \<and> (rstrip_chars ''/'' u = [] \<or> last (rstrip_chars ''/'' u) \<noteq> CHR ''/''))
   \<and> ((env_url = None \<or> env_url = Some []) \<and> config = Parsed cfg
        \<and> gateway_section cfg = Some gw \<longrightarrow>
        get_gateway_url repr env_url config
          = ''http://''
            @ format_value repr (case map_of gw ''host'' of
                                   None \<Rightarrow> JStr ''127.0.0.1'' | Some h \<Rightarrow> h)
            @ '':''
            @ format_value repr (case map_of gw ''port'' of
                                   None \<Rightarrow> JInt 18789 | Some p \<Rightarrow> p))
   \<and> ((env_url = None \<or> env_url = Some [])
        \<and> (config = NoFile \<or> config = Invalid
            \<or> (config = Parsed cfg \<and> gateway_section cfg = None)) \<longrightarrow>
        get_gateway_url repr env_url config = ''http://localhost:18789'')"
proof (intro conjI impI)
  assume "env_url = Some u \<and> u \<noteq> []"
  then show "get_gateway_url repr env_url config = rstrip_chars ''/'' u"
    by (simp add: get_gateway_url_def truthy_def)
  show "\<exists>n. u = rstrip_chars ''/'' u @ replicate n (CHR ''/'')"
    by (rule rstrip_chars_suffix)
  show "rstrip_chars ''/'' u = [] \<or> last (rstrip_chars ''/'' u) \<noteq> CHR ''/''"
    by (rule rstrip_chars_last)
next
  assume a: "(env_url = None \<or> env_url = Some []) \<and> config = Parsed cfg
        \<and> gateway_section cfg = Some gw"
  then have "\<not> truthy env_url"
    by (auto simp: truthy_def)
  with a show "get_gateway_url repr env_url config
          = ''http://''
            @ format_value repr (case map_of gw ''host'' of
                                   None \<Rightarrow> JStr ''127.0.0.1'' | Some h \<Rightarrow> h)
            @ '':''
            @ format_value repr (case map_of gw ''port'' of
                                   None \<Rightarrow> JInt 18789 | Some p \<Rightarrow> p)"
    by (simp add: get_gateway_url_def gateway_section_some)
next
  assume a: "(env_url = None \<or> env_url = Some [])
        \<and> (config = NoFile \<or> config = Invalid
            \<or> (config = Parsed cfg \<and> gateway_section cfg = None))"
  then have f: "\<not> truthy env_url"
    by (auto simp: truthy_def)
  from a have "config = NoFile \<or> config = Invalid
                 \<or> (config = Parsed cfg \<and> gateway_section cfg = None)"
    by (rule conjunct2)
  then show "get_gateway_url repr env_url config = ''http://localhost:18789''"
  proof (elim disjE conjE)
    assume "config = NoFile"
    with f show ?thesis by (simp add: get_gateway_url_def)
  next
    assume "config = Invalid"
    with f show ?thesis by (simp add: get_gateway_url_def)
  next
    assume "config = Parsed cfg" "gateway_section cfg = None"
    with f show ?thesis by (simp add: get_gateway_url_def gateway_section_none)
  qed
qed

text \<open>
  C7 as the specification states it fails on the following input.
\<close>

theorem gateway_url_precedence_counterexample:
  "get_gateway_url ex_repr None (Parsed ex_config_null) = ''http://localhost:18789''
   \<and> get_gateway_url ex_repr None (Parsed ex_config_null) \<noteq> ''http://127.0.0.1:18789''"
  by (simp add: get_gateway_url_def truthy_def gateway_from_config_def dict_get_def
        ex_config_null_def)

theorem gateway_url_precedence_witness:
  "get_gateway_url ex_repr (Some ''http://gateway.local:9000//'') (Parsed ex_config)
     = ''http://gateway.local:9000''
   \<and> gateway_section ex_config = Some [(''port'', JInt 9000)]
   \<and> get_gateway_url ex_repr (Some []) (Parsed ex_config) = ''http://127.0.0.1:9000''
   \<and> gateway_section ex_config_null = None
   \<and> get_gateway_url ex_repr None (Parsed ex_config_null) = ''http://localhost:18789''
   \<and> get_gateway_url ex_repr None NoFile = ''http://localhost:18789''"
proof -
  have sec: "gateway_section ex_config = Some [(''port'', JInt 9000)]"
    by (simp add: gateway_section_def ex_config_def)
  have nul: "gateway_section ex_config_null = None"
    by (simp add: gateway_section_def ex_config_null_def)
  have strip: "rstrip_chars ''/'' ''http://gateway.local:9000//'' = ''http://gateway.local:9000''"
    by (simp add: rstrip_chars_def)
  have fmt: "''http://''
               @ format_value ex_repr (case map_of [(''port'', JInt 9000)] ''host'' of
                                         None \<Rightarrow> JStr ''127.0.0.1'' | Some h \<Rightarrow> h)
               @ '':''
               @ format_value ex_repr (case map_of [(''port'', JInt 9000)] ''port'' of
                                         None \<Rightarrow> JInt 18789 | Some p \<Rightarrow> p)
             = ''http://127.0.0.1:9000''"
    by (simp add: format_value_def str_int_def str_nat.simps digit_char_def)
  have "Some ''http://gateway.local:9000//'' = Some ''http://gateway.local:9000//''
          \<and> ''http://gateway.local:9000//'' \<noteq> []"
    by simp
  from gateway_url_precedence
      [of "Some ''http://gateway.local:9000//''" "''http://gateway.local:9000//''" ex_repr
          "Parsed ex_config", THEN conjunct1, THEN mp, OF this, THEN conjunct1]
  have 1: "get_gateway_url ex_repr (Some ''http://gateway.local:9000//'') (Parsed ex_config)
             = ''http://gateway.local:9000''"
    unfolding strip .
  have "(Some [] = None \<or> Some [] = Some ([] :: string)) \<and> Parsed ex_config = Parsed ex_config
          \<and> gateway_section ex_config = Some [(''port'', JInt 9000)]"
    using sec by simp
  from gateway_url_precedence
      [of "Some []" _ ex_repr "Parsed ex_config" ex_config "[(''port'', JInt 9000)]",
       THEN conjunct2, THEN conjunct1, THEN mp, OF this]
  have 2: "get_gateway_url ex_repr (Some []) (Parsed ex_config) = ''http://127.0.0.1:9000''"
    unfolding fmt .
  have "(None = None \<or> None = Some ([] :: string))
          \<and> (Parsed ex_config_null = NoFile \<or> Parsed ex_config_null = Invalid
              \<or> (Parsed ex_config_null = Parsed ex_config_null
                  \<and> gateway_section ex_config_null = None))"
    using nul by simp
  from gateway_url_precedence
      [of None _ ex_repr "Parsed ex_config_null" ex_config_null,
       THEN conjunct2, THEN conjunct2, THEN mp, OF this]
  have 3: "get_gateway_url ex_repr None (Parsed ex_config_null) = ''http://localhost:18789''" .
  have "(None = None \<or> None = Some ([] :: string))
          \<and> (NoFile = NoFile \<or> NoFile = Invalid
              \<or> (NoFile = Parsed ex_config \<and> gateway_section ex_config = None))"
    by simp
  from gateway_url_precedence
      [of None _ ex_repr NoFile ex_config,
       THEN conjunct2, THEN conjunct2, THEN mp, OF this]
  have 4: "get_gateway_url ex_repr None NoFile = ''http://localhost:18789''" .
  show ?thesis
    by (intro conjI) (rule 1 sec 2 nul 3 4)+
qed



text \<open>
  C9. Missing-paper behaviour. With the database present, for an \<^verbatim>\<open>arxiv_id\<close> that no row
  of \<^verbatim>\<open>papers\<close> has, \<^verbatim>\<open>GET /paper/{arxiv_id}\<close> raises 404 "Paper not found" while
  \<^verbatim>\<open>GET /paper/{arxiv_id}/translate\<close> answers with \<^verbatim>\<open>translated\<close> null; the translate route
  also answers with \<^verbatim>\<open>translated\<close> null when the paper's abstract is null or empty or no
  target language is configured. In each of these cases no request goes to the LLM and
  the tables are left as they were.
\<close>

theorem missing_paper_behaviour:
  "((\<forall>r \<in> set (t_papers t). p_arxiv_id r \<noteq> arxiv_id) \<longrightarrow>
       science_paper (Some t) fs data_dir pd arxiv_id
         = Inl (HTTPException 404 ''Paper not found'')
     \<and> science_paper_translate (Some t) pd llm insert_ok arxiv_id
         = Inr (\<lparr>out_translated = None, out_language = None\<rparr>, t, []))
   \<and> (find (\<lambda>r. p_arxiv_id r = arxiv_id) (t_papers t) = Some row
        \<and> (p_abstract row = None \<or> p_abstract row = Some [] \<or> get_translate_language pd = [])
      \<longrightarrow> science_paper_translate (Some t) pd llm insert_ok arxiv_id
            = Inr (\<lparr>out_translated = None, out_language = None\<rparr>, t, []))"
  by (auto simp: science_paper_def science_paper_translate_def arxiv_db_conn_def Let_def
        find_none split: option.splits)

theorem missing_paper_behaviour_witness:
  "''9999.99999'' \<notin> set (map p_arxiv_id (t_papers ex_tables))
   \<and> science_paper (Some ex_tables) ex_files ''/data/arxivkb'' ex_prefs_german ''9999.99999''
       = Inl (HTTPException 404 ''Paper not found'')
   \<and> science_paper_translate (Some ex_tables) ex_prefs_german ex_llm_translate True
         ''9999.99999''
       = Inr (\<lparr>out_translated = None, out_language = None\<rparr>, ex_tables, [])
   \<and> find (\<lambda>r. p_arxiv_id r = ''2401.00002'') (t_papers ex_tables)
       = Some (t_papers ex_tables ! 1)
   \<and> p_abstract (t_papers ex_tables ! 1) = Some []
   \<and> science_paper_translate (Some ex_tables) ex_prefs_german ex_llm_translate True
         ''2401.00002''
       = Inr (\<lparr>out_translated = None, out_language = None\<rparr>, ex_tables, [])"
proof -
  have absent: "\<forall>r \<in> set (t_papers ex_tables). p_arxiv_id r \<noteq> ''9999.99999''"
    by (simp add: ex_tables_def)
  have row: "find (\<lambda>r. p_arxiv_id r = ''2401.00002'') (t_papers ex_tables)
               = Some (t_papers ex_tables ! 1)"
    by (simp add: ex_tables_def)
  have empty: "p_abstract (t_papers ex_tables ! 1) = Some []"
    by (simp add: ex_tables_def)
  note one = missing_paper_behaviour
    [of ex_tables "''9999.99999''" ex_files "''/data/arxivkb''" ex_prefs_german
        ex_llm_translate True]
  note two = missing_paper_behaviour
    [of ex_tables "''2401.00002''" ex_files "''/data/arxivkb''" ex_prefs_german
        ex_llm_translate True "t_papers ex_tables ! 1"]
  have listed: "''9999.99999'' \<notin> set (map p_arxiv_id (t_papers ex_tables))"
    by (simp add: ex_tables_def)
  from listed absent row empty one two show ?thesis
    by blast
qed

text \<open>
  C10. Ticker symbol normalisation. \<^verbatim>\<open>POST /tickers\<close> inserts exactly the stripped and
  upper-cased symbols of the request that are neither empty nor \<^verbatim>\<open>MARKET\<close>, and lists
  exactly those in \<^verbatim>\<open>added\<close>: each is normalised, the rows of all other symbols (the
  empty one and \<^verbatim>\<open>MARKET\<close> among them) stay as they were, and a table whose symbols are
  normalised stays so. \<^verbatim>\<open>DELETE /tickers\<close> strips and upper-cases every requested
  non-blank symbol, deletes exactly those, and answers \<^verbatim>\<open>ok\<close> true whether or not they
  were in the table.
\<close>

theorem ticker_normalisation:
  "(add_tickers now tickers tb = Inr (r, tb') \<longrightarrow>
      ok r \<and> added r = kept_symbols tickers
      \<and> (\<forall>sym \<in> set (added r). normalised sym \<and> sym \<noteq> [] \<and> sym \<noteq> ''MARKET'')
      \<and> dom tb' = dom tb \<union> set (added r)
      \<and> (\<forall>k. k \<notin> set (added r) \<longrightarrow> tb' k = tb k)
      \<and> tb' [] = tb [] \<and> tb' ''MARKET'' = tb ''MARKET''
      \<and> ((\<forall>k \<in> dom tb. normalised k) \<longrightarrow> (\<forall>k \<in> dom tb'. normalised k)))
   \<and> (remove_tickers symbols tb = (r2, tb2) \<longrightarrow>
        rm_ok r2
        \<and> removed r2 = map (\<lambda>s. upper (strip s))
                           (filter (\<lambda>s. strip s \<noteq> []) (split_on (CHR '','') symbols))
        \<and> (\<forall>sym \<in> set (removed r2). normalised sym)
        \<and> dom tb2 = dom tb - set (removed r2)
        \<and> (\<forall>k. k \<notin> set (removed r2) \<longrightarrow> tb2 k = tb k)
        \<and> ((\<forall>k \<in> dom tb. normalised k) \<longrightarrow> (\<forall>k \<in> dom tb2. normalised k)))"
proof -
  have kept: "\<forall>sym \<in> set (kept_symbols tickers). normalised sym \<and> sym \<noteq> [] \<and> sym \<noteq> ''MARKET''"
    by (auto simp: kept_symbols_def symbol_of_def normalised_symbol)
  have add: "ok r \<and> added r = kept_symbols tickers
      \<and> dom tb' = dom tb \<union> set (added r)
      \<and> (\<forall>k. k \<notin> set (added r) \<longrightarrow> tb' k = tb k)"
    if "add_tickers now tickers tb = Inr (r, tb')"
    using that foldl_add_one [of now "(tb, [])" tickers]
    by (auto simp: add_tickers_def Let_def split: if_splits prod.splits)
  have rm: "rm_ok r2
        \<and> removed r2 = map (\<lambda>s. upper (strip s))
                           (filter (\<lambda>s. strip s \<noteq> []) (split_on (CHR '','') symbols))
        \<and> (\<forall>sym \<in> set (removed r2). normalised sym)
        \<and> dom tb2 = dom tb - set (removed r2)
        \<and> (\<forall>k. k \<notin> set (removed r2) \<longrightarrow> tb2 k = tb k)"
    if "remove_tickers symbols tb = (r2, tb2)"
    using that foldl_delete [of tb "removed r2"]
    by (auto simp: remove_tickers_def Let_def normalised_symbol)
  show ?thesis
  proof (intro conjI impI)
    assume a: "add_tickers now tickers tb = Inr (r, tb')"
    from add [OF a] kept show "ok r" "added r = kept_symbols tickers"
      "\<forall>sym \<in> set (added r). normalised sym \<and> sym \<noteq> [] \<and> sym \<noteq> ''MARKET''"
      "dom tb' = dom tb \<union> set (added r)" "\<forall>k. k \<notin> set (added r) \<longrightarrow> tb' k = tb k"
      by simp_all
    from add [OF a] kept show "tb' [] = tb []" "tb' ''MARKET'' = tb ''MARKET''"
      by auto
    assume "\<forall>k \<in> dom tb. normalised k"
    with add [OF a] kept show "\<forall>k \<in> dom tb'. normalised k"
      by auto
  next
    assume b: "remove_tickers symbols tb = (r2, tb2)"
    from rm [OF b] show "rm_ok r2"
      "removed r2 = map (\<lambda>s. upper (strip s))
                           (filter (\<lambda>s. strip s \<noteq> []) (split_on (CHR '','') symbols))"
      "\<forall>sym \<in> set (removed r2). normalised sym"
      "dom tb2 = dom tb - set (removed r2)" "\<forall>k. k \<notin> set (removed r2) \<longrightarrow> tb2 k = tb k"
      by simp_all
    assume "\<forall>k \<in> dom tb. normalised k"
    with rm [OF b] show "\<forall>k \<in> dom tb2. normalised k"
      by auto
  qed
qed

theorem ticker_normalisation_witness:
  "(\<exists>r tb'. add_tickers ex_now ex_tickers ex_ticker_table = Inr (r, tb')
       \<and> ok r \<and> added r = [''NVDA'', ''TSLA'']
       \<and> dom tb' = {''NVDA'', ''TSLA''} \<and> tb' ''MARKET'' = None)
   \<and> (\<exists>r2 tb2. remove_tickers ''nvda, ,aapl'' ex_ticker_table = (r2, tb2)
       \<and> rm_ok r2 \<and> removed r2 = [''NVDA'', ''AAPL''] \<and> dom tb2 = {})"
proof -
  have "ex_tickers \<noteq> []"
    by (simp add: ex_tickers_def)
  then obtain r tb' where a: "add_tickers ex_now ex_tickers ex_ticker_table = Inr (r, tb')"
    by (cases "foldl (add_one ex_now) (ex_ticker_table, []) ex_tickers")
       (simp add: add_tickers_def)
  obtain r2 tb2 where b: "remove_tickers ''nvda, ,aapl'' ex_ticker_table = (r2, tb2)"
    by (cases "remove_tickers ''nvda, ,aapl'' ex_ticker_table")
  have d: "dom ex_ticker_table = {''NVDA''}" "ex_ticker_table ''MARKET'' = None"
    by (simp_all add: ex_ticker_table_def)
  note t = ticker_normalisation
    [of ex_now ex_tickers ex_ticker_table r tb' "''nvda, ,aapl''" r2 tb2]
  note A = t [THEN conjunct1, THEN mp, OF a]
  note B = t [THEN conjunct2, THEN mp, OF b]
  have a1: "ok r"
    using A by (rule conjunct1)
  have a2: "added r = [''NVDA'', ''TSLA'']"
    using A ex_kept by simp
  have "dom tb' = dom ex_ticker_table \<union> set (added r)"
    using A by simp
  then have a3: "dom tb' = {''NVDA'', ''TSLA''}"
    unfolding a2 d by auto
  have "tb' ''MARKET'' = ex_ticker_table ''MARKET''"
    using A by simp
  then have a4: "tb' ''MARKET'' = None"
    unfolding d .
  have b1: "rm_ok r2"
    using B by (rule conjunct1)
  have b2: "removed r2 = [''NVDA'', ''AAPL'']"
    using B ex_removed by simp
  have "dom tb2 = dom ex_ticker_table - set (removed r2)"
    using B by simp
  then have b3: "dom tb2 = {}"
    unfolding b2 d by simp
  from a a1 a2 a3 a4 have left: "\<exists>r tb'. add_tickers ex_now ex_tickers ex_ticker_table = Inr (r, tb')
       \<and> ok r \<and> added r = [''NVDA'', ''TSLA'']
       \<and> dom tb' = {''NVDA'', ''TSLA''} \<and> tb' ''MARKET'' = None"
    by (intro exI conjI)
  from b b1 b2 b3 have right: "\<exists>r2 tb2. remove_tickers ''nvda, ,aapl'' ex_ticker_table = (r2, tb2)
       \<and> rm_ok r2 \<and> removed r2 = [''NVDA'', ''AAPL''] \<and> dom tb2 = {}"
    by (intro exI conjI)
  from left right show ?thesis ..
qed

end
